theory Spec2Isabelle
  imports Main "HOL-Library.Sublist"
begin

section \<open>Python values\<close>

text \<open>
  The program of \<^verbatim>\<open>app.py\<close> moves decoded JSON between three HTTP services and a
  web page. A decoded JSON document is a Python value: \<^verbatim>\<open>None\<close>, a bool, an int, a
  float, a str, a list or a dict with str keys. A str is modelled by its UTF-8 bytes. A
  dict is an association list with distinct keys in insertion order.

  A float is kept as the decimal literal it was read from: \<open>Dec m x\<close> stands for the
  double nearest to \<open>m * 10 ^ x\<close>. Nothing in the program computes with floats; only
  their truth value is ever looked at.
\<close>

datatype pyfloat = Dec int int | PosInf | NegInf | NaN

datatype json =
    JNull
  | JBool bool
  | JInt int
  | JFloat pyfloat
  | JStr string
  | JArr "json list"
  | JObj "(string \<times> json) list"

text \<open>The exceptions that the operations used by the program raise.\<close>

datatype py_error =
    HTTPError nat
  | ConnectionError
  | JSONDecodeError
  | KeyError json
  | IndexError
  | TypeError
  | AttributeError

definition and_then :: "'e + 'a \<Rightarrow> ('a \<Rightarrow> 'e + 'b) \<Rightarrow> 'e + 'b" where
  "and_then m f = (case m of Inl e \<Rightarrow> Inl e | Inr x \<Rightarrow> f x)"

text \<open>
  A double is zero when the literal lies within half of the least subnormal
  \<open>2 ^ -1074\<close> of zero (the tie rounds to the even neighbour, which is zero).
\<close>

fun float_nonzero :: "pyfloat \<Rightarrow> bool" where
  "float_nonzero (Dec m x) =
     (m \<noteq> 0 \<and> (0 \<le> x \<or> \<bar>m\<bar> * 2 ^ 1075 > 10 ^ nat (- x)))"
| "float_nonzero PosInf = True"
| "float_nonzero NegInf = True"
| "float_nonzero NaN = True"

text \<open>Truth value testing, as \<^verbatim>\<open>if tracks:\<close> and \<^verbatim>\<open>not tracks\<close> do it.\<close>

fun truthy :: "json \<Rightarrow> bool" where
  "truthy JNull = False"
| "truthy (JBool b) = b"
| "truthy (JInt n) = (n \<noteq> 0)"
| "truthy (JFloat f) = float_nonzero f"
| "truthy (JStr s) = (s \<noteq> [])"
| "truthy (JArr xs) = (xs \<noteq> [])"
| "truthy (JObj kvs) = (kvs \<noteq> [])"

text \<open>
  The characters of a str: each lead byte with the continuation bytes
  (\<open>0x80\<close> to \<open>0xBF\<close>) that follow it.
\<close>

definition is_cont :: "char \<Rightarrow> bool" where
  "is_cont c = (128 \<le> (of_char c :: nat) \<and> (of_char c :: nat) < 192)"

fun codepoints :: "string \<Rightarrow> string list" where
  "codepoints [] = []"
| "codepoints (c # cs) =
     (case cs of
        [] \<Rightarrow> [[c]]
      | d # _ \<Rightarrow>
          if is_cont d then
            (case codepoints cs of [] \<Rightarrow> [[c]] | g # gs \<Rightarrow> (c # g) # gs)
          else [c] # codepoints cs)"

text \<open>\<^verbatim>\<open>v[key]\<close> with a str key.\<close>

fun py_getitem :: "json \<Rightarrow> string \<Rightarrow> py_error + json" where
  "py_getitem (JObj kvs) k =
     (case map_of kvs k of None \<Rightarrow> Inl (KeyError (JStr k)) | Some v \<Rightarrow> Inr v)"
| "py_getitem _ k = Inl TypeError"

text \<open>\<^verbatim>\<open>v[0]\<close>.\<close>

fun py_getitem0 :: "json \<Rightarrow> py_error + json" where
  "py_getitem0 (JArr []) = Inl IndexError"
| "py_getitem0 (JArr (x # xs)) = Inr x"
| "py_getitem0 (JStr s) =
     (case codepoints s of [] \<Rightarrow> Inl IndexError | c # _ \<Rightarrow> Inr (JStr c))"
| "py_getitem0 (JObj kvs) = Inl (KeyError (JInt 0))"
| "py_getitem0 _ = Inl TypeError"

text \<open>\<^verbatim>\<open>v.get(key, default)\<close>: a method of dict only.\<close>

fun py_get :: "json \<Rightarrow> string \<Rightarrow> json \<Rightarrow> py_error + json" where
  "py_get (JObj kvs) k d = Inr (case map_of kvs k of None \<Rightarrow> d | Some v \<Rightarrow> v)"
| "py_get _ k d = Inl AttributeError"

text \<open>The items a \<^verbatim>\<open>for\<close> loop or a comprehension visits.\<close>

fun py_iter :: "json \<Rightarrow> py_error + json list" where
  "py_iter (JArr xs) = Inr xs"
| "py_iter (JObj kvs) = Inr (map (\<lambda>kv. JStr (fst kv)) kvs)"
| "py_iter (JStr s) = Inr (map JStr (codepoints s))"
| "py_iter _ = Inl TypeError"

text \<open>
  An f-string is kept as its pieces: the literal text and the values interpolated into
  it. The text that \<^verbatim>\<open>str()\<close> gives for a value that is not a str is not modelled.
\<close>

datatype piece = Lit string | Val json | Exc py_error

type_synonym fstring = "piece list"

section \<open>Text\<close>

text \<open>
  \<^verbatim>\<open>str.strip()\<close> removes the whitespace characters of Python from both ends of a
  str: the ASCII ones (tab, line feed, vertical tab, form feed, carriage return, the
  four separators \<open>0x1C\<close> to \<open>0x1F\<close>, space) and, in UTF-8, U+0085, U+00A0, U+1680,
  U+2000 to U+200A, U+2028, U+2029, U+202F, U+205F and U+3000.
\<close>

definition py_whitespace :: "string list" where
  "py_whitespace =
     [[CHR 0x09], [CHR 0x0A], [CHR 0x0B], [CHR 0x0C], [CHR 0x0D],
      [CHR 0x1C], [CHR 0x1D], [CHR 0x1E], [CHR 0x1F], [CHR 0x20],
      [CHR 0xC2, CHR 0x85], [CHR 0xC2, CHR 0xA0], [CHR 0xE1, CHR 0x9A, CHR 0x80],
      [CHR 0xE2, CHR 0x80, CHR 0x80], [CHR 0xE2, CHR 0x80, CHR 0x81],
      [CHR 0xE2, CHR 0x80, CHR 0x82], [CHR 0xE2, CHR 0x80, CHR 0x83],
      [CHR 0xE2, CHR 0x80, CHR 0x84], [CHR 0xE2, CHR 0x80, CHR 0x85],
      [CHR 0xE2, CHR 0x80, CHR 0x86], [CHR 0xE2, CHR 0x80, CHR 0x87],
      [CHR 0xE2, CHR 0x80, CHR 0x88], [CHR 0xE2, CHR 0x80, CHR 0x89],
      [CHR 0xE2, CHR 0x80, CHR 0x8A], [CHR 0xE2, CHR 0x80, CHR 0xA8],
      [CHR 0xE2, CHR 0x80, CHR 0xA9], [CHR 0xE2, CHR 0x80, CHR 0xAF],
      [CHR 0xE2, CHR 0x81, CHR 0x9F], [CHR 0xE3, CHR 0x80, CHR 0x80]]"

function strip_front :: "string list \<Rightarrow> string \<Rightarrow> string" where
  "strip_front ws s =
     (case find (\<lambda>w. w \<noteq> [] \<and> prefix w s) ws of
        None \<Rightarrow> s
      | Some w \<Rightarrow> strip_front ws (drop (length w) s))"
  by pat_completeness auto
termination
  by (relation "measure (\<lambda>(ws, s). length s)") (auto simp: find_Some_iff prefix_def)

definition lstrip :: "string \<Rightarrow> string" where
  "lstrip s = strip_front py_whitespace s"

definition rstrip :: "string \<Rightarrow> string" where
  "rstrip s = rev (strip_front (map rev py_whitespace) (rev s))"

definition strip :: "string \<Rightarrow> string" where
  "strip s = rstrip (lstrip s)"

text \<open>\<^verbatim>\<open>sep.join(xs)\<close> for a list of str.\<close>

fun join :: "string \<Rightarrow> string list \<Rightarrow> string" where
  "join sep [] = []"
| "join sep [x] = x"
| "join sep (x # y # ys) = x @ sep @ join sep (y # ys)"

section \<open>Decoding JSON text\<close>

text \<open>
  \<^verbatim>\<open>json.loads\<close> of the standard library, for a str: \<open>None\<close> stands for
  \<^verbatim>\<open>JSONDecodeError\<close>. The text is cut into tokens, and the tokens are read by a
  pushdown automaton whose stack holds the lists and dicts still open. Whitespace
  between tokens is space, tab, line feed and carriage return only. A string literal
  admits no raw control character and the escapes \<^verbatim>\<open>\" \\ \/ \b \f \n \r \t \uXXXX\<close>,
  a surrogate pair of \<^verbatim>\<open>\u\<close> escapes being one character. Besides the numbers of JSON
  the words \<^verbatim>\<open>NaN\<close>, \<^verbatim>\<open>Infinity\<close> and \<^verbatim>\<open>-Infinity\<close> are read. A number with a
  fraction or an exponent is a float (the sign of a zero is not kept), any other an
  int. A key repeated in an object keeps its first place and its last value. The limits of the interpreter (recursion
  depth, digits of an int) are not modelled.
\<close>

definition is_json_ws :: "char \<Rightarrow> bool" where
  "is_json_ws c = (c = CHR 0x20 \<or> c = CHR 0x09 \<or> c = CHR 0x0A \<or> c = CHR 0x0D)"

definition is_digit :: "char \<Rightarrow> bool" where
  "is_digit c = (48 \<le> (of_char c :: nat) \<and> (of_char c :: nat) \<le> 57)"

definition digits_val :: "string \<Rightarrow> nat" where
  "digits_val ds = foldl (\<lambda>n c. 10 * n + (of_char c - 48)) 0 ds"

definition hex_val :: "char \<Rightarrow> nat option" where
  "hex_val c =
     (let n = (of_char c :: nat) in
      if 48 \<le> n \<and> n \<le> 57 then Some (n - 48)
      else if 97 \<le> n \<and> n \<le> 102 then Some (n - 87)
      else if 65 \<le> n \<and> n \<le> 70 then Some (n - 55)
      else None)"

fun hex4 :: "string \<Rightarrow> nat option" where
  "hex4 [a, b, c, d] =
     (case (hex_val a, hex_val b, hex_val c, hex_val d) of
        (Some x, Some y, Some z, Some w) \<Rightarrow> Some (((x * 16 + y) * 16 + z) * 16 + w)
      | _ \<Rightarrow> None)"
| "hex4 _ = None"

definition utf8 :: "nat \<Rightarrow> string" where
  "utf8 u =
     (if u < 128 then [char_of u]
      else if u < 2048 then [char_of (192 + u div 64), char_of (128 + u mod 64)]
      else if u < 65536 then
        [char_of (224 + u div 4096), char_of (128 + u div 64 mod 64), char_of (128 + u mod 64)]
      else
        [char_of (240 + u div 262144), char_of (128 + u div 4096 mod 64),
         char_of (128 + u div 64 mod 64), char_of (128 + u mod 64)])"

definition unescape :: "char \<Rightarrow> char option" where
  "unescape e =
     (if e = CHR 0x22 then Some (CHR 0x22)
      else if e = CHR 0x5C then Some (CHR 0x5C)
      else if e = CHR ''/'' then Some (CHR ''/'')
      else if e = CHR ''b'' then Some (CHR 0x08)
      else if e = CHR ''f'' then Some (CHR 0x0C)
      else if e = CHR ''n'' then Some (CHR 0x0A)
      else if e = CHR ''r'' then Some (CHR 0x0D)
      else if e = CHR ''t'' then Some (CHR 0x09)
      else None)"

function scanstring :: "string \<Rightarrow> string \<Rightarrow> (string \<times> string) option" where
  "scanstring [] acc = None"
| "scanstring (c # cs) acc =
     (if c = CHR 0x22 then Some (acc, cs)
      else if c = CHR 0x5C then
        (case cs of
           [] \<Rightarrow> None
         | e # cs' \<Rightarrow>
             if e = CHR ''u'' then
               (case hex4 (take 4 cs') of
                  None \<Rightarrow> None
                | Some u \<Rightarrow>
                    if 55296 \<le> u \<and> u < 56320 \<and> take 2 (drop 4 cs') = [CHR 0x5C, CHR ''u''] then
                      (case hex4 (take 4 (drop 6 cs')) of
                         None \<Rightarrow> None
                       | Some u2 \<Rightarrow>
                           if 56320 \<le> u2 \<and> u2 < 57344 then
                             scanstring (drop 10 cs')
                               (acc @ utf8 (65536 + (u - 55296) * 1024 + (u2 - 56320)))
                           else scanstring (drop 4 cs') (acc @ utf8 u))
                    else scanstring (drop 4 cs') (acc @ utf8 u))
             else
               (case unescape e of
                  None \<Rightarrow> None
                | Some ch \<Rightarrow> scanstring cs' (acc @ [ch])))
      else if (of_char c :: nat) < 32 then None
      else scanstring cs (acc @ [c]))"
  by pat_completeness auto
termination
  by (relation "measure (\<lambda>(s, acc). length s)") auto

definition scan_keyword :: "string \<Rightarrow> (json \<times> string) option" where
  "scan_keyword s =
     (if prefix ''null'' s then Some (JNull, drop 4 s)
      else if prefix ''true'' s then Some (JBool True, drop 4 s)
      else if prefix ''false'' s then Some (JBool False, drop 5 s)
      else if prefix ''NaN'' s then Some (JFloat NaN, drop 3 s)
      else if prefix ''Infinity'' s then Some (JFloat PosInf, drop 8 s)
      else if prefix ''-Infinity'' s then Some (JFloat NegInf, drop 9 s)
      else None)"

definition scan_exponent :: "string \<Rightarrow> int option \<times> string" where
  "scan_exponent s =
     (case s of
        [] \<Rightarrow> (None, s)
      | e # r \<Rightarrow>
          if e = CHR ''e'' \<or> e = CHR ''E'' then
            (let (sg, r') =
               (case r of
                  [] \<Rightarrow> (1, r)
                | p # t \<Rightarrow> if p = CHR ''+'' then (1, t) else if p = CHR ''-'' then (- 1, t) else (1, r))
             in if takeWhile is_digit r' = [] then (None, s)
                else (Some (sg * int (digits_val (takeWhile is_digit r'))), dropWhile is_digit r'))
          else (None, s))"

definition scan_fraction :: "string \<Rightarrow> string \<times> string" where
  "scan_fraction s =
     (case s of
        [] \<Rightarrow> ([], s)
      | p # r \<Rightarrow>
          if p = CHR ''.'' \<and> takeWhile is_digit r \<noteq> []
          then (takeWhile is_digit r, dropWhile is_digit r) else ([], s))"

definition scan_integer :: "string \<Rightarrow> (string \<times> string) option" where
  "scan_integer s =
     (case s of
        [] \<Rightarrow> None
      | d # r \<Rightarrow>
          if d = CHR ''0'' then Some ([d], r)
          else if is_digit d then Some (d # takeWhile is_digit r, dropWhile is_digit r)
          else None)"

definition scan_number :: "string \<Rightarrow> (json \<times> string) option" where
  "scan_number s =
     (let (sg, s1) = (case s of [] \<Rightarrow> (1, s) | c # cs \<Rightarrow> if c = CHR ''-'' then (- 1, cs) else (1, s))
      in case scan_integer s1 of
           None \<Rightarrow> None
         | Some (ip, r1) \<Rightarrow>
             (let (fp, r2) = scan_fraction r1; (ex, r3) = scan_exponent r2
              in if fp = [] \<and> ex = None then Some (JInt (sg * int (digits_val ip)), r3)
                 else Some (JFloat (Dec (sg * int (digits_val (ip @ fp)))
                                        ((case ex of None \<Rightarrow> 0 | Some x \<Rightarrow> x) - int (length fp))), r3)))"

definition scan_scalar :: "string \<Rightarrow> (json \<times> string) option" where
  "scan_scalar s = (case scan_keyword s of Some r \<Rightarrow> Some r | None \<Rightarrow> scan_number s)"

datatype token = TLBracket | TRBracket | TLBrace | TRBrace | TComma | TColon | TStr string | TVal json

lemma scanstring_shorter:
  "scanstring s acc = Some (r, rest) \<Longrightarrow> length rest < length s"
proof (induction s acc rule: scanstring.induct)
  case (1 acc)
  then show ?case by simp
next
  case (2 c cs acc)
  show ?case
  proof (cases "c = CHR 0x22")
    case True
    with "2.prems" show ?thesis by simp
  next
    case nq: False
    show ?thesis
    proof (cases "c = CHR 0x5C")
      case False
      with nq "2.prems" have "scanstring cs (acc @ [c]) = Some (r, rest)" "\<not> (of_char c :: nat) < 32"
        by (auto split: if_splits)
      with "2.IH"(5) [OF nq False] show ?thesis by fastforce
    next
      case bs: True
      with nq "2.prems" obtain e cs' where cs: "cs = e # cs'"
        by (cases cs) auto
      show ?thesis
      proof (cases "e = CHR ''u''")
        case False
        with nq bs cs "2.prems" obtain ch where "unescape e = Some ch"
          "scanstring cs' (acc @ [ch]) = Some (r, rest)"
          by (auto split: option.splits)
        with "2.IH"(4) [OF nq bs cs False] cs show ?thesis by fastforce
      next
        case True
        with nq bs cs "2.prems" obtain u where u: "hex4 (take 4 cs') = Some u"
          by (auto split: option.splits)
        note IH1 = "2.IH"(1) [OF nq bs cs True u]
        note IH2 = "2.IH"(2) [OF nq bs cs True u]
        note IH3 = "2.IH"(3) [OF nq bs cs True u]
        from nq bs cs True u "2.prems" IH1 IH2 IH3 show ?thesis
          by (auto split: if_splits option.splits)
      qed
    qed
  qed
qed

lemma scan_keyword_shorter: "scan_keyword s = Some (v, rest) \<Longrightarrow> length rest < length s"
  by (auto simp: scan_keyword_def prefix_def split: if_splits)

lemma scan_integer_shorter: "scan_integer s = Some (ip, rest) \<Longrightarrow> length rest < length s"
  by (auto simp: scan_integer_def less_Suc_eq_le length_dropWhile_le split: list.splits if_splits)

lemma scan_fraction_shorter: "scan_fraction s = (fp, rest) \<Longrightarrow> length rest \<le> length s"
  by (auto simp: scan_fraction_def le_SucI length_dropWhile_le split: list.splits if_splits)

lemma scan_exponent_shorter: "scan_exponent s = (ex, rest) \<Longrightarrow> length rest \<le> length s"
  by (auto simp: scan_exponent_def Let_def le_SucI length_dropWhile_le
      split: list.splits if_splits prod.splits
      intro: order_trans [OF length_dropWhile_le])

lemma scan_number_shorter: "scan_number s = Some (v, rest) \<Longrightarrow> length rest < length s"
proof -
  assume a: "scan_number s = Some (v, rest)"
  obtain sg s1 where s1: "(case s of [] \<Rightarrow> (1::int, s) | c # cs \<Rightarrow> if c = CHR ''-'' then (- 1, cs) else (1, s)) = (sg, s1)"
    by (cases "(case s of [] \<Rightarrow> (1::int, s) | c # cs \<Rightarrow> if c = CHR ''-'' then (- 1, cs) else (1, s))")
  then have l1: "length s1 \<le> length s" by (auto split: list.splits if_splits)
  from a s1 obtain ip r1 where i: "scan_integer s1 = Some (ip, r1)"
    by (auto simp: scan_number_def split: option.splits)
  obtain fp r2 where f: "scan_fraction r1 = (fp, r2)" by (cases "scan_fraction r1")
  obtain ex r3 where e: "scan_exponent r2 = (ex, r3)" by (cases "scan_exponent r2")
  from a s1 i f e have "rest = r3" by (auto simp: scan_number_def split: if_splits)
  with scan_integer_shorter [OF i] scan_fraction_shorter [OF f] scan_exponent_shorter [OF e] l1
  show ?thesis by simp
qed

lemma scan_scalar_shorter: "scan_scalar s = Some (v, rest) \<Longrightarrow> length rest < length s"
  by (auto simp: scan_scalar_def split: option.splits
      dest: scan_keyword_shorter scan_number_shorter)

function tokens :: "string \<Rightarrow> token list option" where
  "tokens [] = Some []"
| "tokens (c # cs) =
     (if is_json_ws c then tokens cs
      else if c = CHR ''['' then map_option (Cons TLBracket) (tokens cs)
      else if c = CHR '']'' then map_option (Cons TRBracket) (tokens cs)
      else if c = CHR ''{'' then map_option (Cons TLBrace) (tokens cs)
      else if c = CHR ''}'' then map_option (Cons TRBrace) (tokens cs)
      else if c = CHR '','' then map_option (Cons TComma) (tokens cs)
      else if c = CHR '':'' then map_option (Cons TColon) (tokens cs)
      else if c = CHR 0x22 then
        (case scanstring cs [] of
           None \<Rightarrow> None
         | Some (s, rest) \<Rightarrow> map_option (Cons (TStr s)) (tokens rest))
      else
        (case scan_scalar (c # cs) of
           None \<Rightarrow> None
         | Some (v, rest) \<Rightarrow> map_option (Cons (TVal v)) (tokens rest)))"
  by pat_completeness auto
termination
  by (relation "measure length")
    (auto dest: scanstring_shorter scan_scalar_shorter)

fun dict_set :: "(string \<times> json) list \<Rightarrow> string \<Rightarrow> json \<Rightarrow> (string \<times> json) list" where
  "dict_set [] k v = [(k, v)]"
| "dict_set (p # ps) k v = (if fst p = k then (k, v) # ps else p # dict_set ps k v)"

datatype frame = FArr "json list" | FObj "(string \<times> json) list" | FKey "(string \<times> json) list" string

datatype phase = PValue | PFirst | PKey | PColon | PNext | PDone json

fun put_value :: "json \<Rightarrow> frame list \<Rightarrow> (phase \<times> frame list) option" where
  "put_value v [] = Some (PDone v, [])"
| "put_value v (FArr xs # st) = Some (PNext, FArr (xs @ [v]) # st)"
| "put_value v (FKey kvs k # st) = Some (PNext, FObj (dict_set kvs k v) # st)"
| "put_value v (FObj kvs # st) = None"

fun open_value :: "token \<Rightarrow> frame list \<Rightarrow> (phase \<times> frame list) option" where
  "open_value (TStr s) st = put_value (JStr s) st"
| "open_value (TVal v) st = put_value v st"
| "open_value TLBracket st = Some (PFirst, FArr [] # st)"
| "open_value TLBrace st = Some (PFirst, FObj [] # st)"
| "open_value _ st = None"

fun step :: "phase \<times> frame list \<Rightarrow> token \<Rightarrow> (phase \<times> frame list) option" where
  "step (PValue, st) t = open_value t st"
| "step (PFirst, FArr xs # st) t =
     (if t = TRBracket then put_value (JArr xs) st else open_value t (FArr xs # st))"
| "step (PFirst, FObj kvs # st) t =
     (case t of
        TRBrace \<Rightarrow> put_value (JObj kvs) st
      | TStr k \<Rightarrow> Some (PColon, FKey kvs k # st)
      | _ \<Rightarrow> None)"
| "step (PKey, FObj kvs # st) t =
     (case t of TStr k \<Rightarrow> Some (PColon, FKey kvs k # st) | _ \<Rightarrow> None)"
| "step (PColon, st) t = (if t = TColon then Some (PValue, st) else None)"
| "step (PNext, FArr xs # st) t =
     (case t of
        TComma \<Rightarrow> Some (PValue, FArr xs # st)
      | TRBracket \<Rightarrow> put_value (JArr xs) st
      | _ \<Rightarrow> None)"
| "step (PNext, FObj kvs # st) t =
     (case t of
        TComma \<Rightarrow> Some (PKey, FObj kvs # st)
      | TRBrace \<Rightarrow> put_value (JObj kvs) st
      | _ \<Rightarrow> None)"
| "step _ t = None"

fun parse :: "phase \<times> frame list \<Rightarrow> token list \<Rightarrow> json option" where
  "parse (ph, st) [] = (case ph of PDone v \<Rightarrow> Some v | _ \<Rightarrow> None)"
| "parse s (t # ts) = (case step s t of None \<Rightarrow> None | Some s' \<Rightarrow> parse s' ts)"

definition json_loads :: "string \<Rightarrow> json option" where
  "json_loads s = (case tokens s of None \<Rightarrow> None | Some ts \<Rightarrow> parse (PValue, []) ts)"

text \<open>
  Bytes that open no token of JSON: the controls and the space, and every byte of a
  character beyond ASCII. All whitespace of Python is made of them. A \<open>plain\<close> text
  has none of them.
\<close>

definition blank :: "string \<Rightarrow> bool" where
  "blank w = (\<forall>b\<in>set w. (of_char b :: nat) \<le> 32 \<or> 128 \<le> (of_char b :: nat))"


section \<open>HTTP\<close>

text \<open>
  A call of \<^verbatim>\<open>requests.get\<close> or \<^verbatim>\<open>requests.post\<close> sends one request. The network
  answers with a response or the call raises. The answer may depend on every request
  sent before, so the network is a function of the requests so far and the request
  sent. Every function that calls the network takes the list of requests sent so far
  and returns it extended.

  Of a response the program reads the status (in \<^verbatim>\<open>raise_for_status\<close>) and the
  decoded body (in \<^verbatim>\<open>resp.json()\<close>); \<open>resp_body\<close> is \<open>None\<close> when the body does not
  decode.
\<close>

record request =
  req_method :: string
  req_url :: string
  req_headers :: "(string \<times> fstring) list"
  req_params :: "(string \<times> json) list"
  req_data :: "(string \<times> json) list"
  req_json :: "json option"

record response =
  status_code :: nat
  resp_body :: "json option"

type_synonym net = "request list \<Rightarrow> request \<Rightarrow> py_error + response"

definition send :: "net \<Rightarrow> request \<Rightarrow> request list \<Rightarrow> (py_error + response) \<times> request list" where
  "send nw r log = (nw log r, log @ [r])"

definition get_request :: "string \<Rightarrow> (string \<times> fstring) list \<Rightarrow> (string \<times> json) list \<Rightarrow> request" where
  "get_request u hs ps =
     \<lparr>req_method = ''GET'', req_url = u, req_headers = hs, req_params = ps,
      req_data = [], req_json = None\<rparr>"

definition raise_for_status :: "response \<Rightarrow> py_error + unit" where
  "raise_for_status resp =
     (if 400 \<le> status_code resp \<and> status_code resp < 600
      then Inl (HTTPError (status_code resp)) else Inr ())"

definition resp_json :: "response \<Rightarrow> py_error + json" where
  "resp_json resp = (case resp_body resp of None \<Rightarrow> Inl JSONDecodeError | Some j \<Rightarrow> Inr j)"

section \<open>Track search\<close>

definition search_url :: string where
  "search_url = ''https://api.spotify.com/v1/search''"

definition default_limit :: int where
  "default_limit = 3"

text \<open>\<^verbatim>\<open>{"q": ..., "type": "track", "limit": limit}\<close>\<close>

definition search_params :: "string \<Rightarrow> int \<Rightarrow> (string \<times> json) list" where
  "search_params q limit = [(''q'', JStr q), (''type'', JStr ''track''), (''limit'', JInt limit)]"

text \<open>\<^verbatim>\<open>resp.json().get("tracks", {}).get("items", [])\<close>\<close>

definition tracks_items :: "response \<Rightarrow> py_error + json" where
  "tracks_items resp =
     and_then (resp_json resp) (\<lambda>j.
     and_then (py_get j ''tracks'' (JObj [])) (\<lambda>t.
     py_get t ''items'' (JArr [])))"

text \<open>The dict that the loop body builds from a track item \<open>t\<close>, field by field.\<close>

definition track_entry :: "string \<Rightarrow> json \<Rightarrow> py_error + json" where
  "track_entry genre t =
     and_then (py_getitem t ''id'') (\<lambda>i.
     and_then (py_getitem t ''name'') (\<lambda>n.
     and_then (and_then (and_then (py_getitem t ''artists'') py_getitem0)
                 (\<lambda>a. py_getitem a ''name'')) (\<lambda>ar.
     and_then (and_then (py_getitem t ''external_urls'') (\<lambda>e. py_getitem e ''spotify'')) (\<lambda>u.
     Inr (JObj [(''id'', i), (''name'', n), (''artist'', ar),
                (''genre'', JStr genre), (''url'', u)])))))"

text \<open>\<^verbatim>\<open>for t in tracks: all_tracks.append({...})\<close>\<close>

fun append_tracks :: "string \<Rightarrow> json list \<Rightarrow> json list \<Rightarrow> py_error + json list" where
  "append_tracks genre [] all_tracks = Inr all_tracks"
| "append_tracks genre (t # ts) all_tracks =
     (case track_entry genre t of
        Inl e \<Rightarrow> Inl e
      | Inr d \<Rightarrow> append_tracks genre ts (all_tracks @ [d]))"

text \<open>
  The two requests of one genre: \<^verbatim>\<open>q = f"genre:{genre}"\<close> first, and
  \<^verbatim>\<open>q = genre\<close> when the \<open>tracks\<close> of the first answer are falsy. The status of
  neither response is looked at.
\<close>

definition genre_query :: "(string \<times> fstring) list \<Rightarrow> int \<Rightarrow> string \<Rightarrow> request" where
  "genre_query hs limit genre = get_request search_url hs (search_params (''genre:'' @ genre) limit)"

definition text_query :: "(string \<times> fstring) list \<Rightarrow> int \<Rightarrow> string \<Rightarrow> request" where
  "text_query hs limit genre = get_request search_url hs (search_params genre limit)"

definition fetch_tracks ::
  "net \<Rightarrow> (string \<times> fstring) list \<Rightarrow> int \<Rightarrow> string \<Rightarrow> request list \<Rightarrow> (py_error + json) \<times> request list" where
  "fetch_tracks nw hs limit genre log =
     (case send nw (genre_query hs limit genre) log of
        (Inl e, log1) \<Rightarrow> (Inl e, log1)
      | (Inr resp, log1) \<Rightarrow>
          (case tracks_items resp of
             Inl e \<Rightarrow> (Inl e, log1)
           | Inr tracks \<Rightarrow>
               if \<not> truthy tracks then
                 (case send nw (text_query hs limit genre) log1 of
                    (Inl e, log2) \<Rightarrow> (Inl e, log2)
                  | (Inr resp2, log2) \<Rightarrow> (tracks_items resp2, log2))
               else (Inr tracks, log1)))"

text \<open>\<^verbatim>\<open>for genre in genres: ...\<close>\<close>

fun search_loop ::
  "net \<Rightarrow> (string \<times> fstring) list \<Rightarrow> int \<Rightarrow> string list \<Rightarrow> json list \<Rightarrow> request list
     \<Rightarrow> (py_error + json list) \<times> request list" where
  "search_loop nw hs limit [] all_tracks log = (Inr all_tracks, log)"
| "search_loop nw hs limit (genre # genres) all_tracks log =
     (case fetch_tracks nw hs limit genre log of
        (Inl e, log') \<Rightarrow> (Inl e, log')
      | (Inr tracks, log') \<Rightarrow>
          (case py_iter tracks of
             Inl e \<Rightarrow> (Inl e, log')
           | Inr ts \<Rightarrow>
               (case append_tracks genre ts all_tracks of
                  Inl e \<Rightarrow> (Inl e, log')
                | Inr all_tracks' \<Rightarrow> search_loop nw hs limit genres all_tracks' log')))"

text \<open>
  \<^verbatim>\<open>search_tracks(genres, token, limit)\<close>. The token is whatever the token response
  held; it is interpolated into the \<^verbatim>\<open>Authorization\<close> header.
\<close>

definition auth_header :: "json \<Rightarrow> (string \<times> fstring) list" where
  "auth_header token = [(''Authorization'', [Lit ''Bearer '', Val token])]"

definition search_tracks ::
  "net \<Rightarrow> string list \<Rightarrow> json \<Rightarrow> int \<Rightarrow> request list \<Rightarrow> (py_error + json list) \<times> request list" where
  "search_tracks nw genres token limit log =
     search_loop nw (auth_header token) limit genres [] log"

section \<open>The functions of the application\<close>

text \<open>
  The three secrets are read from the environment when the module is loaded;
  \<^verbatim>\<open>os.getenv\<close> gives \<^verbatim>\<open>None\<close> for a variable that is not set.
\<close>

record config =
  groq_api_key :: "string option"
  spotify_client_id :: "string option"
  spotify_client_secret :: "string option"

definition opt_json :: "string option \<Rightarrow> json" where
  "opt_json v = (case v of None \<Rightarrow> JNull | Some s \<Rightarrow> JStr s)"

definition groq_api_url :: string where
  "groq_api_url = ''https://api.groq.com/openai/v1/chat/completions''"

definition tarot_api_url :: string where
  "tarot_api_url = ''https://tarotapi.dev/api/v1''"

definition tarot_image_base :: string where
  "tarot_image_base = ''https://www.sacred-texts.com/tarot/pkt/img''"

definition contexts :: "string list" where
  "contexts = [''Career'', ''Love'', ''Health'', ''Spirituality'',
               ''Finances'', ''Family'', ''Creativity'', ''Personal Growth'']"

definition post_request ::
  "string \<Rightarrow> (string \<times> fstring) list \<Rightarrow> (string \<times> json) list \<Rightarrow> json option \<Rightarrow> request" where
  "post_request u hs d j =
     \<lparr>req_method = ''POST'', req_url = u, req_headers = hs, req_params = [],
      req_data = d, req_json = j\<rparr>"

text \<open>\<^verbatim>\<open>draw_tarot_cards(n)\<close>\<close>

definition draw_tarot_cards :: "net \<Rightarrow> int \<Rightarrow> request list \<Rightarrow> (py_error + json) \<times> request list" where
  "draw_tarot_cards nw n log =
     (case send nw (get_request (tarot_api_url @ ''/cards/random'') [] [(''n'', JInt n)]) log of
        (Inl e, log') \<Rightarrow> (Inl e, log')
      | (Inr resp, log') \<Rightarrow>
          (and_then (raise_for_status resp) (\<lambda>_.
           and_then (resp_json resp) (\<lambda>j. py_getitem j ''cards'')), log'))"

text \<open>\<^verbatim>\<open>build_prompt(cards, context)\<close>: one f-string.\<close>

definition build_prompt :: "string list \<Rightarrow> string \<Rightarrow> string" where
  "build_prompt cards context =
     ''\<newline>You are a reflective assistant combining tarot symbolism and music psychology.\<newline>'' @
     ''You do not predict the future. You provide grounded, introspective interpretations.\<newline>'' @
     ''\<newline>'' @
     ''Tarot cards drawn:\<newline>'' @
     join '', '' cards @ ''\<newline>'' @
     ''\<newline>'' @
     ''Context:\<newline>'' @
     context @ ''\<newline>'' @
     ''\<newline>'' @
     ''Tasks:\<newline>'' @
     ''1. Interpret the tarot reading\<newline>'' @
     ''2. Identify emotional themes\<newline>'' @
     ''3. Recommend 3 music genres or styles\<newline>'' @
     ''4. Explain why each recommendation fits\<newline>'' @
     ''\<newline>'' @
     ''Respond clearly and thoughtfully.\<newline>''"

definition groq_headers :: "config \<Rightarrow> (string \<times> fstring) list" where
  "groq_headers cfg =
     [(''Authorization'', [Lit ''Bearer '', Val (opt_json (groq_api_key cfg))]),
      (''Content-Type'', [Lit ''application/json''])]"

text \<open>\<^verbatim>\<open>resp.json()["choices"][0]["message"]["content"]\<close>\<close>

definition message_content :: "response \<Rightarrow> py_error + json" where
  "message_content resp =
     and_then (resp_json resp) (\<lambda>j.
     and_then (py_getitem j ''choices'') (\<lambda>cs.
     and_then (py_getitem0 cs) (\<lambda>c.
     and_then (py_getitem c ''message'') (\<lambda>m.
     py_getitem m ''content''))))"

text \<open>\<^verbatim>\<open>get_tarot_reading(cards, context)\<close>\<close>

definition reading_payload :: "string \<Rightarrow> json" where
  "reading_payload prompt =
     JObj [(''model'', JStr ''llama-3.1-8b-instant''),
           (''messages'', JArr [JObj [(''role'', JStr ''user''), (''content'', JStr prompt)]]),
           (''max_tokens'', JInt 512),
           (''temperature'', JFloat (Dec 7 (- 1)))]"

definition reading_request :: "config \<Rightarrow> string \<Rightarrow> request" where
  "reading_request cfg prompt =
     post_request groq_api_url (groq_headers cfg) [] (Some (reading_payload prompt))"

definition get_tarot_reading ::
  "net \<Rightarrow> config \<Rightarrow> string list \<Rightarrow> string \<Rightarrow> request list \<Rightarrow> (py_error + json) \<times> request list" where
  "get_tarot_reading nw cfg cards context log =
     (let prompt = build_prompt cards context in
      case send nw (reading_request cfg prompt) log of
        (Inl e, log') \<Rightarrow> (Inl e, log')
      | (Inr resp, log') \<Rightarrow>
          (and_then (raise_for_status resp) (\<lambda>_. message_content resp), log'))"

text \<open>\<^verbatim>\<open>extract_genres(reading_text)\<close>\<close>

definition extract_payload :: "string \<Rightarrow> json" where
  "extract_payload reading_text =
     JObj [(''model'', JStr ''llama-3.1-8b-instant''),
           (''messages'',
            JArr [JObj [(''role'', JStr ''user''),
                        (''content'',
                         JStr (''From the following text, extract ONLY the music genre/style names '' @
                               ''as a JSON list of strings. Return ONLY the JSON array, nothing else.\<newline>\<newline>'' @
                               reading_text))]]),
           (''max_tokens'', JInt 100),
           (''temperature'', JFloat (Dec 0 (- 1)))]"

text \<open>\<^verbatim>\<open>v.strip()\<close>: a method of str.\<close>

fun py_strip :: "json \<Rightarrow> py_error + string" where
  "py_strip (JStr s) = Inr (strip s)"
| "py_strip _ = Inl AttributeError"

definition py_json_loads :: "string \<Rightarrow> py_error + json" where
  "py_json_loads raw = (case json_loads raw of None \<Rightarrow> Inl JSONDecodeError | Some v \<Rightarrow> Inr v)"

definition extract_request :: "config \<Rightarrow> string \<Rightarrow> request" where
  "extract_request cfg reading_text =
     post_request groq_api_url (groq_headers cfg) [] (Some (extract_payload reading_text))"

definition extract_genres ::
  "net \<Rightarrow> config \<Rightarrow> string \<Rightarrow> request list \<Rightarrow> (py_error + json) \<times> request list" where
  "extract_genres nw cfg reading_text log =
     (case send nw (extract_request cfg reading_text) log of
        (Inl e, log') \<Rightarrow> (Inl e, log')
      | (Inr resp, log') \<Rightarrow>
          (and_then (raise_for_status resp) (\<lambda>_.
           and_then (and_then (message_content resp) py_strip) (\<lambda>raw.
           py_json_loads raw)), log'))"

text \<open>\<^verbatim>\<open>get_spotify_token()\<close>\<close>

definition token_request :: "config \<Rightarrow> request" where
  "token_request cfg =
     post_request ''https://accounts.spotify.com/api/token'' []
       [(''grant_type'', JStr ''client_credentials''),
        (''client_id'', opt_json (spotify_client_id cfg)),
        (''client_secret'', opt_json (spotify_client_secret cfg))] None"

definition get_spotify_token :: "net \<Rightarrow> config \<Rightarrow> request list \<Rightarrow> (py_error + json) \<times> request list" where
  "get_spotify_token nw cfg log =
     (case send nw (token_request cfg) log of
        (Inl e, log') \<Rightarrow> (Inl e, log')
      | (Inr resp, log') \<Rightarrow>
          (and_then (raise_for_status resp) (\<lambda>_.
           and_then (resp_json resp) (\<lambda>j. py_getitem j ''access_token'')), log'))"

section \<open>The triggered action\<close>

text \<open>
  The block under \<^verbatim>\<open>if st.button(...)\<close>. What the page shows is the list of the
  elements written, in order (spinners come and go and are left out). The run ends by
  reaching the end of the script, by \<^verbatim>\<open>st.stop()\<close>, or by an exception that no
  \<^verbatim>\<open>try\<close> of the script catches.
\<close>

datatype ui =
    StError fstring
  | StWarning fstring
  | StSubheader fstring
  | StMarkdown fstring
  | StWrite fstring
  | StImage fstring json
  | StHtml fstring
  | InColumn nat ui

datatype ending = Completed | Stopped | Uncaught py_error

record outcome =
  shown :: "ui list"
  sent :: "request list"
  ending :: ending

text \<open>\<^verbatim>\<open>not v\<close> for a value of \<^verbatim>\<open>os.getenv\<close>: unset or empty.\<close>

definition unset :: "string option \<Rightarrow> bool" where
  "unset v = (v = None \<or> v = Some [])"

definition missing_vars :: "config \<Rightarrow> string list" where
  "missing_vars cfg =
     (if unset (groq_api_key cfg) then [''GROQ_API_KEY''] else []) @
     (if unset (spotify_client_id cfg) then [''SPOTIFY_CLIENT_ID''] else []) @
     (if unset (spotify_client_secret cfg) then [''SPOTIFY_CLIENT_SECRET''] else [])"

definition missing_message :: "string list \<Rightarrow> fstring" where
  "missing_message missing =
     [Lit (''Missing environment variables: '' @ join '', '' missing @
           ''. Add them to your `.env` file.'')]"

text \<open>\<^verbatim>\<open>[c["name"] for c in drawn_cards]\<close>\<close>

fun card_names_of :: "json list \<Rightarrow> py_error + json list" where
  "card_names_of [] = Inr []"
| "card_names_of (c # cs) =
     and_then (py_getitem c ''name'') (\<lambda>n.
     and_then (card_names_of cs) (\<lambda>ns. Inr (n # ns)))"

text \<open>
  The strs of a list, when all its items are strs. \<^verbatim>\<open>", ".join\<close> and the functions
  annotated with \<^verbatim>\<open>list[str]\<close> raise \<^verbatim>\<open>TypeError\<close> on any other item.
\<close>

fun as_strs :: "json list \<Rightarrow> string list option" where
  "as_strs [] = Some []"
| "as_strs (JStr s # xs) = map_option (Cons s) (as_strs xs)"
| "as_strs (_ # xs) = None"

text \<open>
  \<^verbatim>\<open>for i, card in enumerate(drawn_cards): with cols[i]: ...\<close> with
  \<^verbatim>\<open>cols = st.columns(num_cards)\<close>: the elements written and the exception that ended
  the loop, if one did.
\<close>

fun show_cards :: "int \<Rightarrow> nat \<Rightarrow> json list \<Rightarrow> ui list \<times> py_error option" where
  "show_cards num_cards i [] = ([], None)"
| "show_cards num_cards i (c # cards) =
     (if num_cards \<le> int i then ([], Some IndexError)
      else case py_getitem c ''name_short'' of
        Inl e \<Rightarrow> ([], Some e)
      | Inr short \<Rightarrow>
     (case py_getitem c ''name'' of
        Inl e \<Rightarrow> ([], Some e)
      | Inr name \<Rightarrow>
     (let img = InColumn i (StImage [Lit tarot_image_base, Lit ''/'', Val short, Lit ''.jpg''] name) in
      case py_getitem c ''meaning_up'' of
        Inl e \<Rightarrow> ([img], Some e)
      | Inr up \<Rightarrow>
     (let m1 = InColumn i (StMarkdown [Lit ''**Upright:** '', Val up]) in
      case py_getitem c ''meaning_rev'' of
        Inl e \<Rightarrow> ([img, m1], Some e)
      | Inr down \<Rightarrow>
     (let m2 = InColumn i (StMarkdown [Lit ''**Reversed:** '', Val down]);
          (rest, err) = show_cards num_cards (Suc i) cards
      in ([img, m1, m2] @ rest, err))))))"

text \<open>\<^verbatim>\<open>for track in tracks: st.markdown(...); st.components.v1.html(...)\<close>\<close>

fun show_tracks :: "json list \<Rightarrow> ui list \<times> py_error option" where
  "show_tracks [] = ([], None)"
| \<open>show_tracks (track # tracks) =
     (case py_getitem track ''id'' of
        Inl e \<Rightarrow> ([], Some e)
      | Inr i \<Rightarrow>
     (case and_then (py_getitem track ''name'') (\<lambda>n.
           and_then (py_getitem track ''artist'') (\<lambda>a.
           and_then (py_getitem track ''genre'') (\<lambda>g. Inr (n, a, g)))) of
        Inl e \<Rightarrow> ([], Some e)
      | Inr (n, a, g) \<Rightarrow>
     (let md = StMarkdown [Lit ''**'', Val n, Lit (''** '' @ [CHR 0xE2, CHR 0x80, CHR 0x94] @ '' ''),
                           Val a, Lit ''  `['', Val g, Lit '']`''];
          html = StHtml [Lit ''<iframe src="'',
                         Lit ''https://open.spotify.com/embed/track/'', Val i,
                         Lit ''?utm_source=generator&theme=0'',
                         Lit (''" width="100%" height="80" '' @
                              ''frameBorder="0" allow="autoplay; clipboard-write; encrypted-media; '' @
                              ''fullscreen; picture-in-picture" loading="lazy"></iframe>'')];
          (rest, err) = show_tracks tracks
      in ([md, html] @ rest, err))))\<close>

text \<open>The Spotify stage and what follows it; \<open>genres\<close> are the strs that the loop visits.\<close>

definition spotify_stage :: "config \<Rightarrow> net \<Rightarrow> string list \<Rightarrow> ui list \<Rightarrow> request list \<Rightarrow> outcome" where
  "spotify_stage cfg nw genres page log =
     (case get_spotify_token nw cfg log of
        (Inl e, log1) \<Rightarrow>
          \<lparr>shown = page @ [StError [Lit ''Error searching Spotify: '', Exc e]], sent = log1, ending = Stopped\<rparr>
      | (Inr token, log1) \<Rightarrow>
     (case search_tracks nw genres token default_limit log1 of
        (Inl e, log2) \<Rightarrow>
          \<lparr>shown = page @ [StError [Lit ''Error searching Spotify: '', Exc e]], sent = log2, ending = Stopped\<rparr>
      | (Inr tracks, log2) \<Rightarrow>
          if tracks \<noteq> [] then
            (let (players, err) = show_tracks tracks in
             \<lparr>shown = page @ [StSubheader [Lit ([CHR 0xF0, CHR 0x9F, CHR 0x8E, CHR 0xA7] @ '' Listen Now'')]] @ players,
              sent = log2,
              ending = (case err of None \<Rightarrow> Completed | Some e \<Rightarrow> Uncaught e)\<rparr>)
          else
            \<lparr>shown = page @ [StWarning [Lit ''No tracks found on Spotify for the recommended genres.'']],
             sent = log2, ending = Completed\<rparr>))"

text \<open>
  The extraction stage. \<open>reading\<close> is what the reading response held; the prompt of
  \<open>extract_genres\<close> is built by \<^verbatim>\<open>+\<close> on strs, which raises \<^verbatim>\<open>TypeError\<close> inside the
  \<^verbatim>\<open>try\<close> when the reading is not a str. \<^verbatim>\<open>", ".join(genres)\<close> stands outside every
  \<^verbatim>\<open>try\<close>.
\<close>

definition genres_stage :: "config \<Rightarrow> net \<Rightarrow> json \<Rightarrow> ui list \<Rightarrow> request list \<Rightarrow> outcome" where
  "genres_stage cfg nw reading page log =
     (case (case reading of JStr r \<Rightarrow> extract_genres nw cfg r log | _ \<Rightarrow> (Inl TypeError, log)) of
        (Inl e, log1) \<Rightarrow>
          \<lparr>shown = page @ [StError [Lit ''Error extracting genres: '', Exc e]], sent = log1, ending = Stopped\<rparr>
      | (Inr genres, log1) \<Rightarrow>
     (let page1 = page @ [StSubheader [Lit ([CHR 0xF0, CHR 0x9F, CHR 0x8E, CHR 0xB5] @ '' Recommended Genres'')]] in
      case and_then (py_iter genres) (\<lambda>items.
             case as_strs items of None \<Rightarrow> Inl TypeError | Some gs \<Rightarrow> Inr gs) of
        Inl e \<Rightarrow> \<lparr>shown = page1, sent = log1, ending = Uncaught e\<rparr>
      | Inr gs \<Rightarrow> spotify_stage cfg nw gs (page1 @ [StWrite [Lit (join '', '' gs)]]) log1))"

text \<open>
  The reading stage. The card names are what the card service held under \<^verbatim>\<open>name\<close>;
  \<^verbatim>\<open>', '.join(cards)\<close> in \<open>build_prompt\<close> raises \<^verbatim>\<open>TypeError\<close> inside the \<^verbatim>\<open>try\<close> when
  one of them is not a str.
\<close>

definition reading_stage ::
  "config \<Rightarrow> net \<Rightarrow> string \<Rightarrow> json list \<Rightarrow> ui list \<Rightarrow> request list \<Rightarrow> outcome" where
  "reading_stage cfg nw context card_names page log =
     (case (case as_strs card_names of
              None \<Rightarrow> (Inl TypeError, log)
            | Some names \<Rightarrow> get_tarot_reading nw cfg names context log) of
        (Inl e, log1) \<Rightarrow>
          \<lparr>shown = page @ [StError [Lit ''Error getting tarot reading: '', Exc e]], sent = log1, ending = Stopped\<rparr>
      | (Inr reading, log1) \<Rightarrow>
          genres_stage cfg nw reading
            (page @ [StSubheader [Lit ([CHR 0xF0, CHR 0x9F, CHR 0x93, CHR 0x96] @ '' Your Reading'')],
                     StMarkdown [Val reading]]) log1)"

text \<open>The cards drawn: their names, then their display.\<close>

definition cards_stage :: "config \<Rightarrow> net \<Rightarrow> int \<Rightarrow> string \<Rightarrow> json \<Rightarrow> request list \<Rightarrow> outcome" where
  "cards_stage cfg nw num_cards context drawn_cards log =
     (case py_iter drawn_cards of
        Inl e \<Rightarrow> \<lparr>shown = [], sent = log, ending = Uncaught e\<rparr>
      | Inr cards \<Rightarrow>
     (case card_names_of cards of
        Inl e \<Rightarrow> \<lparr>shown = [], sent = log, ending = Uncaught e\<rparr>
      | Inr card_names \<Rightarrow>
     (let (faces, err) = show_cards num_cards 0 cards;
          page = StSubheader [Lit ''Your Cards''] # faces
      in case err of
           Some e \<Rightarrow> \<lparr>shown = page, sent = log, ending = Uncaught e\<rparr>
         | None \<Rightarrow> reading_stage cfg nw context card_names page log)))"

text \<open>The whole action, for the card count and the context chosen in the sidebar.\<close>

definition run :: "config \<Rightarrow> net \<Rightarrow> int \<Rightarrow> string \<Rightarrow> outcome" where
  "run cfg nw num_cards context =
     (let missing = missing_vars cfg in
      if missing \<noteq> [] then
        \<lparr>shown = [StError (missing_message missing)], sent = [], ending = Stopped\<rparr>
      else
        case draw_tarot_cards nw num_cards [] of
          (Inl e, log) \<Rightarrow>
            \<lparr>shown = [StError [Lit ''Error fetching tarot cards: '', Exc e]], sent = log, ending = Stopped\<rparr>
        | (Inr drawn_cards, log) \<Rightarrow> cards_stage cfg nw num_cards context drawn_cards log)"

section \<open>Observing a run of the track search\<close>

text \<open>
  What the service handed back during a run of the loop, genre by genre: the items that
  \<^verbatim>\<open>for t in tracks\<close> visits for each genre, with the requests threaded through as
  the loop threads them. It observes the run; the program does not compute it.
\<close>

fun served_items ::
  "net \<Rightarrow> (string \<times> fstring) list \<Rightarrow> int \<Rightarrow> string list \<Rightarrow> request list \<Rightarrow> json list list" where
  "served_items nw hs limit [] log = []"
| "served_items nw hs limit (genre # genres) log =
     (case fetch_tracks nw hs limit genre log of
        (Inl e, log') \<Rightarrow> []
      | (Inr tracks, log') \<Rightarrow>
          (case py_iter tracks of
             Inl e \<Rightarrow> []
           | Inr ts \<Rightarrow> ts # served_items nw hs limit genres log'))"

text \<open>\<open>ds\<close> holds the dict built from each item of \<open>ts\<close>, one for one and in order.\<close>

definition entries_of :: "string \<Rightarrow> json list \<Rightarrow> json list \<Rightarrow> bool" where
  "entries_of genre ts ds = list_all2 (\<lambda>t d. track_entry genre t = Inr d) ts ds"


subsection \<open>Sample data\<close>

text \<open>A well-formed track item, the entry built from it, and a search response.\<close>

definition sample_item :: "string \<Rightarrow> json" where
  "sample_item i =
     JObj [(''id'', JStr i), (''name'', JStr ''Song''),
           (''artists'', JArr [JObj [(''name'', JStr ''Band'')]]),
           (''external_urls'', JObj [(''spotify'', JStr (''https://open.spotify.com/track/'' @ i))])]"

definition sample_entry :: "string \<Rightarrow> string \<Rightarrow> json" where
  "sample_entry genre i =
     JObj [(''id'', JStr i), (''name'', JStr ''Song''), (''artist'', JStr ''Band''),
           (''genre'', JStr genre), (''url'', JStr (''https://open.spotify.com/track/'' @ i))]"

definition items_response :: "json list \<Rightarrow> response" where
  "items_response items =
     \<lparr>status_code = 200, resp_body = Some (JObj [(''tracks'', JObj [(''items'', JArr items)])])\<rparr>"

text \<open>
  Services used as concrete inputs. \<open>fallback_net\<close> knows one track, found by the plain
  query \<^verbatim>\<open>lofi\<close> only; \<open>order_net\<close> answers two genres with the same two tracks in
  opposite orders; \<open>flood_net\<close> answers every query with four tracks and \<open>capped_net\<close>
  with three.
\<close>

definition fallback_net :: net where
  "fallback_net l r =
     (if map_of (req_params r) ''q'' = Some (JStr ''lofi'')
      then Inr (items_response [sample_item ''t1''])
      else Inr (items_response []))"

definition order_net :: net where
  "order_net l r =
     (if map_of (req_params r) ''q'' = Some (JStr ''genre:lofi'')
      then Inr (items_response [sample_item ''t1'', sample_item ''t2''])
      else if map_of (req_params r) ''q'' = Some (JStr ''genre:jazz'')
      then Inr (items_response [sample_item ''t2'', sample_item ''t1''])
      else Inr (items_response []))"



text \<open>
  A track item whose \<^verbatim>\<open>artists\<close> list is empty, and a service that serves it after a
  well-formed one.
\<close>

definition no_artist_fields :: "(string \<times> json) list" where
  "no_artist_fields =
     [(''id'', JStr ''t9''), (''name'', JStr ''Song''), (''artists'', JArr []),
      (''external_urls'', JObj [(''spotify'', JStr ''https://open.spotify.com/track/t9'')])]"

definition no_artist_net :: net where
  "no_artist_net l r = Inr (items_response [sample_item ''t1'', JObj no_artist_fields])"

text \<open>
  A well-formed answer of the chat service with a given message text, a service that
  gives it to every request, and two configurations: all three secrets set, and the
  chat key not set.
\<close>

definition chat_response :: "string \<Rightarrow> response" where
  "chat_response content =
     \<lparr>status_code = 200,
      resp_body = Some (JObj [(''choices'',
        JArr [JObj [(''message'', JObj [(''role'', JStr ''assistant''), (''content'', JStr content)])]])])\<rparr>"


definition full_cfg :: config where
  "full_cfg = \<lparr>groq_api_key = Some ''gsk_test'', spotify_client_id = Some ''client'',
               spotify_client_secret = Some ''secret''\<rparr>"

definition no_groq_cfg :: config where
  "no_groq_cfg = \<lparr>groq_api_key = None, spotify_client_id = Some ''client'',
                  spotify_client_secret = Some ''secret''\<rparr>"

text \<open>
  A whole session in which the cards, the reading, the genres \<^verbatim>\<open>["jazz"]\<close> and the token
  arrive, and the search endpoint then answers every query with status 401 and an
  error body.
\<close>

definition card_of :: "string \<Rightarrow> string \<Rightarrow> json" where
  "card_of name short =
     JObj [(''name'', JStr name), (''name_short'', JStr short),
           (''meaning_up'', JStr ''Beginnings''), (''meaning_rev'', JStr ''Endings'')]"

definition unauthorized :: response where
  "unauthorized =
     \<lparr>status_code = 401,
      resp_body = Some (JObj [(''error'', JObj [(''status'', JInt 401),
                                                (''message'', JStr ''The access token expired'')])])\<rparr>"

definition expired_net :: net where
  \<open>expired_net l r =
     (if req_url r = tarot_api_url @ ''/cards/random'' then
        Inr \<lparr>status_code = 200,
             resp_body = Some (JObj [(''cards'', JArr [card_of ''The Fool'' ''ar00'', card_of ''Death'' ''ar13''])])\<rparr>
      else if req_url r = groq_api_url then
        Inr (chat_response (if length l = 1 then ''Try some jazz.'' else ''["jazz"]''))
      else if req_url r = ''https://accounts.spotify.com/api/token'' then
        Inr \<lparr>status_code = 200, resp_body = Some (JObj [(''access_token'', JStr ''tok123'')])\<rparr>
      else Inr unauthorized)\<close>

text \<open>An error element of the page, also inside a column.\<close>

fun is_st_error :: "ui \<Rightarrow> bool" where
  "is_st_error (StError m) = True"
| "is_st_error (InColumn i u) = is_st_error u"
| "is_st_error _ = False"

section \<open>Properties of the track search\<close>

lemma and_then_Inr: "and_then m f = Inr y \<longleftrightarrow> (\<exists>x. m = Inr x \<and> f x = Inr y)"
  by (cases m) (simp_all add: and_then_def)

lemma and_then_Inl: "and_then m f = Inl e \<longleftrightarrow> m = Inl e \<or> (\<exists>x. m = Inr x \<and> f x = Inl e)"
  by (cases m) (simp_all add: and_then_def)

lemma track_entry_genre:
  "track_entry genre t = Inr d \<Longrightarrow> py_getitem d ''genre'' = Inr (JStr genre)"
  by (auto simp: track_entry_def and_then_Inr)

lemma append_tracks_Inr:
  "append_tracks genre ts acc = Inr r \<Longrightarrow> \<exists>ds. r = acc @ ds \<and> entries_of genre ts ds"
proof (induction ts arbitrary: acc)
  case Nil
  then show ?case by (simp add: entries_of_def)
next
  case (Cons t ts)
  then obtain d where d: "track_entry genre t = Inr d"
    and rest: "append_tracks genre ts (acc @ [d]) = Inr r"
    by (auto split: sum.splits)
  from Cons.IH [OF rest] obtain ds where "r = (acc @ [d]) @ ds" "entries_of genre ts ds"
    by blast
  with d have "r = acc @ (d # ds) \<and> entries_of genre (t # ts) (d # ds)"
    by (simp add: entries_of_def)
  then show ?case by blast
qed

lemma append_tracks_entries:
  "entries_of genre ts ds \<Longrightarrow> append_tracks genre ts acc = Inr (acc @ ds)"
  unfolding entries_of_def
  by (induction ts ds arbitrary: acc rule: list_all2_induct) simp_all

lemma search_loop_Inr:
  "search_loop nw hs limit genres acc log = (Inr r, log') \<Longrightarrow>
   \<exists>blocks. r = acc @ concat blocks \<and>
     length (served_items nw hs limit genres log) = length genres \<and>
     list_all2 (\<lambda>(genre, ts) ds. entries_of genre ts ds)
       (zip genres (served_items nw hs limit genres log)) blocks"
proof (induction genres arbitrary: acc log)
  case Nil
  then show ?case by simp
next
  case (Cons g gs)
  from Cons.prems obtain tracks log1 ts acc1 where
    f: "fetch_tracks nw hs limit g log = (Inr tracks, log1)" and
    i: "py_iter tracks = Inr ts" and
    a: "append_tracks g ts acc = Inr acc1" and
    r: "search_loop nw hs limit gs acc1 log1 = (Inr r, log')"
    by (auto split: prod.splits sum.splits)
  from append_tracks_Inr [OF a] obtain ds where ds: "acc1 = acc @ ds" "entries_of g ts ds"
    by blast
  from Cons.IH [OF r] obtain blocks where b: "r = acc1 @ concat blocks"
    "length (served_items nw hs limit gs log1) = length gs"
    "list_all2 (\<lambda>(genre, ts) ds. entries_of genre ts ds)
       (zip gs (served_items nw hs limit gs log1)) blocks"
    by blast
  have "r = acc @ concat (ds # blocks)" using b(1) ds(1) by simp
  moreover have "length (served_items nw hs limit (g # gs) log) = length (g # gs)"
    using f i b(2) by simp
  moreover have "list_all2 (\<lambda>(genre, ts) ds. entries_of genre ts ds)
       (zip (g # gs) (served_items nw hs limit (g # gs) log)) (ds # blocks)"
    using f i b(3) ds(2) by simp
  ultimately show ?case by blast
qed

lemma send_simp: "send nw r log = (nw log r, log @ [r])" by (simp add: send_def)

lemma fetch_tracks_fallback:
  assumes "nw log (genre_query hs limit g) = Inr resp1" "tracks_items resp1 = Inr tr1" "\<not> truthy tr1"
    and "nw (log @ [genre_query hs limit g]) (text_query hs limit g) = Inr resp2"
  shows "fetch_tracks nw hs limit g log =
      (tracks_items resp2, log @ [genre_query hs limit g, text_query hs limit g])"
  using assms by (simp add: fetch_tracks_def send_def)

lemma fetch_tracks_direct:
  assumes "nw log (genre_query hs limit g) = Inr resp1" "tracks_items resp1 = Inr tr1" "truthy tr1"
  shows "fetch_tracks nw hs limit g log = (Inr tr1, log @ [genre_query hs limit g])"
  using assms by (simp add: fetch_tracks_def send_def)

lemma entries_of_genre:
  "entries_of g ts ds \<Longrightarrow> d \<in> set ds \<Longrightarrow> py_getitem d ''genre'' = Inr (JStr g)"
  unfolding entries_of_def
  by (auto simp: list_all2_conv_all_nth in_set_conv_nth intro: track_entry_genre)

lemma filter_other_genre:
  assumes "entries_of g' ts ds" "g' \<noteq> g"
  shows "filter (\<lambda>d. py_getitem d ''genre'' = Inr (JStr g)) ds = []"
proof -
  have "\<forall>d\<in>set ds. py_getitem d ''genre'' \<noteq> Inr (JStr g)"
    using entries_of_genre [OF assms(1)] assms(2) by auto
  then show ?thesis by (simp add: filter_empty_conv)
qed

lemma search_loop_fallback:
  assumes H1: "\<forall>l. \<exists>resp. nw l (genre_query hs limit g) = Inr resp \<and> tracks_items resp = Inr (JArr [])"
    and H2: "\<forall>l. \<exists>resp. nw l (text_query hs limit g) = Inr resp \<and> tracks_items resp = Inr (JArr [item])"
    and run: "search_loop nw hs limit gs acc log = (Inr r, log')"
  shows "(g \<in> set gs \<longrightarrow> (\<exists>d. track_entry g item = Inr d)) \<and>
         (\<forall>d. track_entry g item = Inr d \<longrightarrow>
            filter (\<lambda>d'. py_getitem d' ''genre'' = Inr (JStr g)) r =
            filter (\<lambda>d'. py_getitem d' ''genre'' = Inr (JStr g)) acc @ replicate (count_list gs g) d)"
  using run
proof (induction gs arbitrary: acc log)
  case Nil
  then show ?case by simp
next
  case (Cons g' gs)
  from Cons.prems obtain tracks log1 ts acc1 where
    f: "fetch_tracks nw hs limit g' log = (Inr tracks, log1)" and
    i: "py_iter tracks = Inr ts" and
    a: "append_tracks g' ts acc = Inr acc1" and
    r: "search_loop nw hs limit gs acc1 log1 = (Inr r, log')"
    by (auto split: prod.splits sum.splits)
  from append_tracks_Inr [OF a] obtain ds where ds: "acc1 = acc @ ds" "entries_of g' ts ds"
    by blast
  note IH = Cons.IH [OF r]
  show ?case
  proof (cases "g' = g")
    case True
    from H1 obtain resp1 where r1: "nw log (genre_query hs limit g) = Inr resp1"
      "tracks_items resp1 = Inr (JArr [])" by blast
    from H2 obtain resp2 where r2: "nw (log @ [genre_query hs limit g]) (text_query hs limit g) = Inr resp2"
      "tracks_items resp2 = Inr (JArr [item])" by blast
    have "fetch_tracks nw hs limit g log = (Inr (JArr [item]), log @ [genre_query hs limit g, text_query hs limit g])"
      using fetch_tracks_fallback [OF r1(1) r1(2) _ r2(1)] r2(2) by simp
    with f True i have ts: "ts = [item]" by auto
    with ds(2) obtain d0 where d0: "track_entry g item = Inr d0" "ds = [d0]"
      using True by (auto simp: entries_of_def list_all2_Cons1)
    have "py_getitem d0 ''genre'' = Inr (JStr g)" using d0(1) by (rule track_entry_genre)
    then show ?thesis using IH d0 ds(1) True by (auto simp: replicate_append_same)
  next
    case False
    have "filter (\<lambda>d. py_getitem d ''genre'' = Inr (JStr g)) ds = []"
      using filter_other_genre [OF ds(2) False] .
    then show ?thesis using IH ds(1) False by auto
  qed
qed

text \<open>
  Claim C2. Take a genre of the input list for which the service answers the filtered
  query \<^verbatim>\<open>genre:<genre>\<close> with an empty track list and the plain query \<^verbatim>\<open><genre>\<close>
  with exactly one item. Then in every result that \<open>search_tracks\<close> returns, the
  entries tagged with that genre are exactly the entry built from that one item, once
  for each time the genre stands in the input list (once when it stands there once).
\<close>

theorem search_tracks_fallback_single_item:
  assumes "genre \<in> set genres"
    and "\<forall>l. \<exists>resp. nw l (genre_query (auth_header token) limit genre) = Inr resp
            \<and> tracks_items resp = Inr (JArr [])"
    and "\<forall>l. \<exists>resp. nw l (text_query (auth_header token) limit genre) = Inr resp
            \<and> tracks_items resp = Inr (JArr [item])"
    and "search_tracks nw genres token limit log = (Inr tracks, log')"
  shows "\<exists>d. track_entry genre item = Inr d \<and>
           filter (\<lambda>d'. py_getitem d' ''genre'' = Inr (JStr genre)) tracks =
             replicate (count_list genres genre) d"
  using search_loop_fallback [OF assms(2) assms(3), of genres "[]" log tracks log'] assms(1) assms(4)
  by (auto simp: search_tracks_def)

lemma tracks_items_response: "tracks_items (items_response items) = Inr (JArr items)"
  by (simp add: tracks_items_def items_response_def resp_json_def and_then_def)

lemma track_entry_sample: "track_entry g (sample_item i) = Inr (sample_entry g i)"
  by (simp add: track_entry_def sample_item_def sample_entry_def and_then_def)

lemma fallback_run:
  "search_tracks fallback_net [''lofi''] (JStr ''tok123'') default_limit [] =
     (Inr [sample_entry ''lofi'' ''t1''],
      [genre_query (auth_header (JStr ''tok123'')) default_limit ''lofi'',
       text_query (auth_header (JStr ''tok123'')) default_limit ''lofi''])"
  by (simp add: search_tracks_def fetch_tracks_def send_def fallback_net_def genre_query_def
      text_query_def get_request_def search_params_def tracks_items_response track_entry_sample)

text \<open>
  The hypotheses hold of \<open>fallback_net\<close> and the genre \<^verbatim>\<open>lofi\<close>: the run sends the
  filtered and then the plain query and returns the one entry.
\<close>

theorem search_tracks_fallback_single_item_witness:
  "''lofi'' \<in> set [''lofi''] \<and>
   (\<forall>l. \<exists>resp. fallback_net l (genre_query (auth_header (JStr ''tok123'')) default_limit ''lofi'') = Inr resp
        \<and> tracks_items resp = Inr (JArr [])) \<and>
   (\<forall>l. \<exists>resp. fallback_net l (text_query (auth_header (JStr ''tok123'')) default_limit ''lofi'') = Inr resp
        \<and> tracks_items resp = Inr (JArr [sample_item ''t1''])) \<and>
   search_tracks fallback_net [''lofi''] (JStr ''tok123'') default_limit [] =
     (Inr [sample_entry ''lofi'' ''t1''],
      [genre_query (auth_header (JStr ''tok123'')) default_limit ''lofi'',
       text_query (auth_header (JStr ''tok123'')) default_limit ''lofi'']) \<and>
   (\<exists>d. track_entry ''lofi'' (sample_item ''t1'') = Inr d \<and>
      filter (\<lambda>d'. py_getitem d' ''genre'' = Inr (JStr ''lofi'')) [sample_entry ''lofi'' ''t1''] =
        replicate (count_list [''lofi''] ''lofi'') d)"
proof -
  have m: "''lofi'' \<in> set [''lofi'']" by simp
  have h1: "\<forall>l. \<exists>resp. fallback_net l (genre_query (auth_header (JStr ''tok123'')) default_limit ''lofi'') = Inr resp
        \<and> tracks_items resp = Inr (JArr [])"
    by (simp add: fallback_net_def genre_query_def get_request_def search_params_def tracks_items_response)
  have h2: "\<forall>l. \<exists>resp. fallback_net l (text_query (auth_header (JStr ''tok123'')) default_limit ''lofi'') = Inr resp
        \<and> tracks_items resp = Inr (JArr [sample_item ''t1''])"
    by (simp add: fallback_net_def text_query_def get_request_def search_params_def tracks_items_response)
  note r = fallback_run
  from search_tracks_fallback_single_item [OF m h1 h2 r] m h1 h2 r show ?thesis by blast
qed

text \<open>
  Claim C5. The list that \<open>search_tracks\<close> returns is the concatenation, in the order
  of the input genres, of one block per genre. The block of a genre holds one entry for
  each item the service handed back for that genre, in the order handed back and with
  none dropped or merged (so an item served for two genres, or twice, appears each
  time), and the \<^verbatim>\<open>genre\<close> field of every entry in the block is that genre.
\<close>

theorem search_tracks_flat_genre_order:
  assumes "search_tracks nw genres token limit log = (Inr tracks, log')"
  shows "\<exists>blocks. tracks = concat blocks \<and> length blocks = length genres \<and>
           length (served_items nw (auth_header token) limit genres log) = length genres \<and>
           (\<forall>i<length genres.
              length (blocks ! i) = length (served_items nw (auth_header token) limit genres log ! i) \<and>
              (\<forall>j<length (blocks ! i).
                 track_entry (genres ! i) (served_items nw (auth_header token) limit genres log ! i ! j)
                   = Inr (blocks ! i ! j) \<and>
                 py_getitem (blocks ! i ! j) ''genre'' = Inr (JStr (genres ! i))))"
proof -
  let ?sv = "served_items nw (auth_header token) limit genres log"
  from assms have "search_loop nw (auth_header token) limit genres [] log = (Inr tracks, log')"
    by (simp add: search_tracks_def)
  from search_loop_Inr [OF this] obtain blocks where
    c: "tracks = concat blocks" and n: "length ?sv = length genres" and
    a: "list_all2 (\<lambda>(genre, ts) ds. entries_of genre ts ds) (zip genres ?sv) blocks"
    by auto
  from a n have len: "length blocks = length genres"
    by (auto dest: list_all2_lengthD)
  have each: "entries_of (genres ! i) (?sv ! i) (blocks ! i)" if "i < length genres" for i
    using list_all2_nthD [OF a, of i] that n by simp
  have "length (blocks ! i) = length (?sv ! i) \<and>
        (\<forall>j<length (blocks ! i).
           track_entry (genres ! i) (?sv ! i ! j) = Inr (blocks ! i ! j) \<and>
           py_getitem (blocks ! i ! j) ''genre'' = Inr (JStr (genres ! i)))"
    if "i < length genres" for i
    using each [OF that]
    by (auto simp: entries_of_def list_all2_conv_all_nth intro: track_entry_genre)
  with c len n show ?thesis by blast
qed

lemma order_run:
  "search_tracks order_net [''lofi'', ''jazz''] (JStr ''tok123'') default_limit [] =
     (Inr [sample_entry ''lofi'' ''t1'', sample_entry ''lofi'' ''t2'',
           sample_entry ''jazz'' ''t2'', sample_entry ''jazz'' ''t1''],
      [genre_query (auth_header (JStr ''tok123'')) default_limit ''lofi'',
       genre_query (auth_header (JStr ''tok123'')) default_limit ''jazz''])"
  by (simp add: search_tracks_def fetch_tracks_def send_def order_net_def genre_query_def
      get_request_def search_params_def tracks_items_response track_entry_sample)

text \<open>
  On \<open>order_net\<close> the tracks \<^verbatim>\<open>t1\<close> and \<^verbatim>\<open>t2\<close> are served for both genres: the result
  holds all four entries, those of \<^verbatim>\<open>lofi\<close> before those of \<^verbatim>\<open>jazz\<close>.
\<close>

theorem search_tracks_flat_genre_order_witness:
  "search_tracks order_net [''lofi'', ''jazz''] (JStr ''tok123'') default_limit [] =
     (Inr [sample_entry ''lofi'' ''t1'', sample_entry ''lofi'' ''t2'',
           sample_entry ''jazz'' ''t2'', sample_entry ''jazz'' ''t1''],
      [genre_query (auth_header (JStr ''tok123'')) default_limit ''lofi'',
       genre_query (auth_header (JStr ''tok123'')) default_limit ''jazz'']) \<and>
   served_items order_net (auth_header (JStr ''tok123'')) default_limit [''lofi'', ''jazz''] [] =
     [[sample_item ''t1'', sample_item ''t2''], [sample_item ''t2'', sample_item ''t1'']] \<and>
   (\<exists>blocks. [sample_entry ''lofi'' ''t1'', sample_entry ''lofi'' ''t2'',
              sample_entry ''jazz'' ''t2'', sample_entry ''jazz'' ''t1''] = concat blocks \<and>
      length blocks = length [''lofi'', ''jazz''] \<and>
      (\<forall>i<length [''lofi'', ''jazz''].
         length (blocks ! i) =
           length (served_items order_net (auth_header (JStr ''tok123'')) default_limit [''lofi'', ''jazz''] [] ! i) \<and>
         (\<forall>j<length (blocks ! i).
            track_entry ([''lofi'', ''jazz''] ! i)
              (served_items order_net (auth_header (JStr ''tok123'')) default_limit [''lofi'', ''jazz''] [] ! i ! j)
              = Inr (blocks ! i ! j) \<and>
            py_getitem (blocks ! i ! j) ''genre'' = Inr (JStr ([''lofi'', ''jazz''] ! i)))))"
proof -
  have sv: "served_items order_net (auth_header (JStr ''tok123'')) default_limit [''lofi'', ''jazz''] [] =
     [[sample_item ''t1'', sample_item ''t2''], [sample_item ''t2'', sample_item ''t1'']]"
    by (simp add: fetch_tracks_def send_def order_net_def genre_query_def
      get_request_def search_params_def tracks_items_response)
  from search_tracks_flat_genre_order [OF order_run] order_run sv show ?thesis by blast
qed











lemma track_entry_malformed:
  assumes "map_of kvs ''artists'' = Some (JArr []) \<or> map_of kvs ''id'' = None \<or>
           map_of kvs ''name'' = None \<or> map_of kvs ''artists'' = None \<or>
           map_of kvs ''external_urls'' = None \<or>
           (\<exists>us. map_of kvs ''external_urls'' = Some (JObj us) \<and> map_of us ''spotify'' = None)"
  shows "\<exists>e. track_entry g (JObj kvs) = Inl e"
proof (cases "track_entry g (JObj kvs)")
  case (Inl e)
  then show ?thesis by blast
next
  case (Inr d)
  then have False using assms
    by (auto simp: track_entry_def and_then_Inr split: option.splits)
  then show ?thesis ..
qed

lemma append_tracks_raises:
  "t \<in> set ts \<Longrightarrow> track_entry g t = Inl e0 \<Longrightarrow> \<exists>e. append_tracks g ts acc = Inl e"
proof (induction ts arbitrary: acc)
  case Nil
  then show ?case by simp
next
  case (Cons a ts)
  show ?case
  proof (cases "track_entry g a")
    case (Inl e)
    then show ?thesis by simp
  next
    case (Inr d)
    with Cons.prems have "t \<in> set ts" by auto
    from Cons.IH [OF this Cons.prems(2)] Inr show ?thesis by simp
  qed
qed

lemma search_loop_raises:
  assumes H: "\<forall>l. \<exists>resp. nw l (genre_query hs limit g) = Inr resp \<and> tracks_items resp = Inr (JArr items)"
    and t: "t \<in> set items" "track_entry g t = Inl e0"
  shows "g \<in> set gs \<Longrightarrow> \<exists>e l. search_loop nw hs limit gs acc log = (Inl e, l)"
proof (induction gs arbitrary: acc log)
  case Nil
  then show ?case by simp
next
  case (Cons g' gs)
  show ?case
  proof (cases "g' = g")
    case True
    from H obtain resp where r: "nw log (genre_query hs limit g) = Inr resp"
      "tracks_items resp = Inr (JArr items)" by blast
    from t(1) have "truthy (JArr items)" by auto
    with r have f: "fetch_tracks nw hs limit g log = (Inr (JArr items), log @ [genre_query hs limit g])"
      by (rule fetch_tracks_direct)
    from append_tracks_raises [OF t] obtain e where "append_tracks g items acc = Inl e" by blast
    with f True show ?thesis by simp
  next
    case False
    with Cons.prems have g: "g \<in> set gs" by simp
    show ?thesis
    proof (cases "\<exists>e l. search_loop nw hs limit (g' # gs) acc log = (Inl e, l)")
      case True
      then show ?thesis .
    next
      case no: False
      then obtain tracks log1 ts acc1 where
        "search_loop nw hs limit (g' # gs) acc log = search_loop nw hs limit gs acc1 log1"
        by (auto split: prod.splits sum.splits)
      with Cons.IH [OF g, of acc1 log1] show ?thesis by simp
    qed
  qed
qed

text \<open>
  Claim C9. \<open>search_tracks\<close> reads \<^verbatim>\<open>id\<close>, \<^verbatim>\<open>name\<close>, \<^verbatim>\<open>artists[0].name\<close> and
  \<^verbatim>\<open>external_urls.spotify\<close> of every item without a check. When the items served for a
  genre of the input list include a dict whose \<^verbatim>\<open>artists\<close> list is empty or which lacks
  one of these fields, \<open>search_tracks\<close> raises: it returns no track list at all, not
  even the entries collected before the faulty item.
\<close>

theorem search_tracks_malformed_item_raises:
  assumes "genre \<in> set genres"
    and "\<forall>l. \<exists>resp. nw l (genre_query (auth_header token) limit genre) = Inr resp
            \<and> tracks_items resp = Inr (JArr items)"
    and "JObj kvs \<in> set items"
    and "map_of kvs ''artists'' = Some (JArr []) \<or> map_of kvs ''id'' = None \<or>
         map_of kvs ''name'' = None \<or> map_of kvs ''artists'' = None \<or>
         map_of kvs ''external_urls'' = None \<or>
         (\<exists>us. map_of kvs ''external_urls'' = Some (JObj us) \<and> map_of us ''spotify'' = None)"
  shows "\<exists>e l. search_tracks nw genres token limit log = (Inl e, l)"
proof -
  from track_entry_malformed [OF assms(4)] obtain e0 where "track_entry genre (JObj kvs) = Inl e0"
    by blast
  with assms(2) assms(3)
  have "\<exists>e l. search_loop nw (auth_header token) limit genres [] log = (Inl e, l)"
    using assms(1) by (rule search_loop_raises)
  then show ?thesis by (simp add: search_tracks_def)
qed

lemma no_artist_run:
  "search_tracks no_artist_net [''jazz''] (JStr ''tok123'') default_limit [] =
     (Inl IndexError, [genre_query (auth_header (JStr ''tok123'')) default_limit ''jazz''])"
  by (simp add: search_tracks_def fetch_tracks_def send_def no_artist_net_def
      tracks_items_response track_entry_sample)
    (simp add: track_entry_def no_artist_fields_def and_then_def)

text \<open>
  On \<open>no_artist_net\<close> the second item served has no artist: the lookup \<^verbatim>\<open>artists[0]\<close>
  raises \<^verbatim>\<open>IndexError\<close> and the entry of the first item is lost with the run.
\<close>

theorem search_tracks_malformed_item_raises_witness:
  "''jazz'' \<in> set [''jazz''] \<and>
   (\<forall>l. \<exists>resp. no_artist_net l (genre_query (auth_header (JStr ''tok123'')) default_limit ''jazz'') = Inr resp
        \<and> tracks_items resp = Inr (JArr [sample_item ''t1'', JObj no_artist_fields])) \<and>
   JObj no_artist_fields \<in> set [sample_item ''t1'', JObj no_artist_fields] \<and>
   map_of no_artist_fields ''artists'' = Some (JArr []) \<and>
   search_tracks no_artist_net [''jazz''] (JStr ''tok123'') default_limit [] =
     (Inl IndexError, [genre_query (auth_header (JStr ''tok123'')) default_limit ''jazz'']) \<and>
   (\<exists>e l. search_tracks no_artist_net [''jazz''] (JStr ''tok123'') default_limit [] = (Inl e, l))"
proof -
  have g: "''jazz'' \<in> set [''jazz'']" by simp
  have h: "\<forall>l. \<exists>resp. no_artist_net l (genre_query (auth_header (JStr ''tok123'')) default_limit ''jazz'') = Inr resp
        \<and> tracks_items resp = Inr (JArr [sample_item ''t1'', JObj no_artist_fields])"
    by (simp add: no_artist_net_def tracks_items_response)
  have m: "JObj no_artist_fields \<in> set [sample_item ''t1'', JObj no_artist_fields]" by simp
  have a: "map_of no_artist_fields ''artists'' = Some (JArr [])"
    by (simp add: no_artist_fields_def)
  from a have d: "map_of no_artist_fields ''artists'' = Some (JArr []) \<or> map_of no_artist_fields ''id'' = None \<or>
         map_of no_artist_fields ''name'' = None \<or> map_of no_artist_fields ''artists'' = None \<or>
         map_of no_artist_fields ''external_urls'' = None \<or>
         (\<exists>us. map_of no_artist_fields ''external_urls'' = Some (JObj us) \<and> map_of us ''spotify'' = None)"
    by (rule disjI1)
  have "\<exists>e l. search_tracks no_artist_net [''jazz''] (JStr ''tok123'') default_limit [] = (Inl e, l)"
    using g h m d by (rule search_tracks_malformed_item_raises)
  with g h m a no_artist_run show ?thesis by blast
qed

text \<open>
  Claim C8. Called with an empty genre list, \<open>search_tracks\<close> returns the empty track
  list and sends no request: the list of requests sent is the one it was called with.
\<close>

theorem search_tracks_empty_genres:
  "search_tracks nw [] token limit log = (Inr [], log)"
  by (simp add: search_tracks_def)

section \<open>Properties of the prompt\<close>

text \<open>
  Claim C7. \<open>build_prompt\<close> is a function of the card names and the context label and
  of nothing else: equal card lists and equal labels give the identical string. The
  string is a fixed text around the card names joined by \<^verbatim>\<open>", "\<close> and, after them, the
  context label.
\<close>

theorem build_prompt_pure:
  assumes "cards = cards'" and "context = context'"
  shows "build_prompt cards context = build_prompt cards' context' \<and>
         (\<exists>pre mid post. \<forall>cs cx. build_prompt cs cx = pre @ join '', '' cs @ mid @ cx @ post)"
proof
  from assms show "build_prompt cards context = build_prompt cards' context'" by simp
next
  let ?pre = "''\<newline>You are a reflective assistant combining tarot symbolism and music psychology.\<newline>'' @
     ''You do not predict the future. You provide grounded, introspective interpretations.\<newline>'' @
     ''\<newline>'' @ ''Tarot cards drawn:\<newline>''"
  let ?mid = "''\<newline>'' @ ''\<newline>'' @ ''Context:\<newline>''"
  let ?post = "''\<newline>'' @ ''\<newline>'' @ ''Tasks:\<newline>'' @
     ''1. Interpret the tarot reading\<newline>'' @
     ''2. Identify emotional themes\<newline>'' @
     ''3. Recommend 3 music genres or styles\<newline>'' @
     ''4. Explain why each recommendation fits\<newline>'' @
     ''\<newline>'' @ ''Respond clearly and thoughtfully.\<newline>''"
  have "\<forall>cs cx. build_prompt cs cx = ?pre @ join '', '' cs @ ?mid @ cx @ ?post"
    unfolding build_prompt_def by (simp only: append_assoc) simp
  then show "\<exists>pre mid post. \<forall>cs cx. build_prompt cs cx = pre @ join '', '' cs @ mid @ cx @ post"
    by blast
qed

text \<open>Two cards and the label \<^verbatim>\<open>Career\<close>: the names are joined as \<^verbatim>\<open>The Fool, Death\<close>.\<close>

theorem build_prompt_pure_witness:
  "[''The Fool'', ''Death''] = [''The Fool'', ''Death''] \<and> ''Career'' = ''Career'' \<and>
   build_prompt [''The Fool'', ''Death''] ''Career'' = build_prompt [''The Fool'', ''Death''] ''Career'' \<and>
   join '', '' [''The Fool'', ''Death''] = ''The Fool, Death'' \<and>
   (\<exists>pre mid post. \<forall>cs cx. build_prompt cs cx = pre @ join '', '' cs @ mid @ cx @ post)"
  using build_prompt_pure [of "[''The Fool'', ''Death'']" "[''The Fool'', ''Death'']" "''Career''" "''Career''"]
  by simp

section \<open>Properties of the configuration check\<close>

text \<open>
  Claim C3. When one of the three secrets (the chat key, the music client id, the music
  client secret) is not set or is empty at the moment the action is triggered, the run
  shows one error, whose text lists by name exactly the secrets that are missing, stops
  there, and has sent no request.
\<close>

theorem missing_configuration_aborts:
  assumes "unset (groq_api_key cfg) \<or> unset (spotify_client_id cfg) \<or> unset (spotify_client_secret cfg)"
  shows "\<exists>names.
           run cfg nw num_cards context =
             \<lparr>shown = [StError [Lit (''Missing environment variables: '' @ join '', '' names @
                                      ''. Add them to your `.env` file.'')]],
              sent = [], ending = Stopped\<rparr> \<and>
           (''GROQ_API_KEY'' \<in> set names \<longleftrightarrow> unset (groq_api_key cfg)) \<and>
           (''SPOTIFY_CLIENT_ID'' \<in> set names \<longleftrightarrow> unset (spotify_client_id cfg)) \<and>
           (''SPOTIFY_CLIENT_SECRET'' \<in> set names \<longleftrightarrow> unset (spotify_client_secret cfg))"
proof -
  from assms have "missing_vars cfg \<noteq> []" by (auto simp: missing_vars_def)
  then have "run cfg nw num_cards context =
             \<lparr>shown = [StError [Lit (''Missing environment variables: '' @ join '', '' (missing_vars cfg) @
                                      ''. Add them to your `.env` file.'')]],
              sent = [], ending = Stopped\<rparr>"
    by (simp add: run_def missing_message_def)
  moreover have "''GROQ_API_KEY'' \<in> set (missing_vars cfg) \<longleftrightarrow> unset (groq_api_key cfg)"
    "''SPOTIFY_CLIENT_ID'' \<in> set (missing_vars cfg) \<longleftrightarrow> unset (spotify_client_id cfg)"
    "''SPOTIFY_CLIENT_SECRET'' \<in> set (missing_vars cfg) \<longleftrightarrow> unset (spotify_client_secret cfg)"
    by (simp_all add: missing_vars_def)
  ultimately show ?thesis by blast
qed

text \<open>With the chat key not set the error names \<^verbatim>\<open>GROQ_API_KEY\<close> and nothing is sent.\<close>

theorem missing_configuration_aborts_witness:
  "unset (groq_api_key no_groq_cfg) \<and>
   run no_groq_cfg expired_net 2 ''Career'' =
     \<lparr>shown = [StError [Lit ''Missing environment variables: GROQ_API_KEY. Add them to your `.env` file.'']],
      sent = [], ending = Stopped\<rparr> \<and>
   (\<exists>names.
      run no_groq_cfg expired_net 2 ''Career'' =
        \<lparr>shown = [StError [Lit (''Missing environment variables: '' @ join '', '' names @
                                 ''. Add them to your `.env` file.'')]],
         sent = [], ending = Stopped\<rparr> \<and>
      (''GROQ_API_KEY'' \<in> set names \<longleftrightarrow> unset (groq_api_key no_groq_cfg)) \<and>
      (''SPOTIFY_CLIENT_ID'' \<in> set names \<longleftrightarrow> unset (spotify_client_id no_groq_cfg)) \<and>
      (''SPOTIFY_CLIENT_SECRET'' \<in> set names \<longleftrightarrow> unset (spotify_client_secret no_groq_cfg)))"
proof -
  have u: "unset (groq_api_key no_groq_cfg)" by (simp add: unset_def no_groq_cfg_def)
  then have d: "unset (groq_api_key no_groq_cfg) \<or> unset (spotify_client_id no_groq_cfg) \<or>
    unset (spotify_client_secret no_groq_cfg)" by (rule disjI1)
  have r: "run no_groq_cfg expired_net 2 ''Career'' =
     \<lparr>shown = [StError [Lit ''Missing environment variables: GROQ_API_KEY. Add them to your `.env` file.'']],
      sent = [], ending = Stopped\<rparr>"
    by (simp add: run_def missing_vars_def missing_message_def unset_def no_groq_cfg_def)
  from missing_configuration_aborts [OF d, of expired_net 2 "''Career''"] u r show ?thesis by blast
qed

section \<open>Stripping a text that decodes\<close>

text \<open>
  Whitespace of Python at either end of a text that decodes is whitespace of JSON, so
  stripping it changes neither the tokens nor the value. The scanners are first shown
  to be blind to blank bytes appended to their input.
\<close>

lemma blank_Nil [simp]: "blank []"
  by (simp add: blank_def)

lemma blank_Cons: "blank (b # w) \<longleftrightarrow> ((of_char b :: nat) \<le> 32 \<or> 128 \<le> (of_char b :: nat)) \<and> blank w"
  by (simp add: blank_def)






lemma drop_prefix_append: "prefix k s \<Longrightarrow> length k = n \<Longrightarrow> drop n (s @ w) = drop n s @ w"
  by (auto simp: prefix_def)


lemma blank_head: "blank (b # w) \<Longrightarrow> (of_char b :: nat) \<le> 32 \<or> 128 \<le> (of_char b :: nat)"
  by (simp add: blank_Cons)























section \<open>Properties of the genre extraction\<close>

lemma message_content_chat: "message_content (chat_response c) = Inr (JStr c)"
  by (simp add: message_content_def chat_response_def resp_json_def and_then_def)

lemma raise_for_status_chat: "raise_for_status (chat_response c) = Inr ()"
  by (simp add: raise_for_status_def chat_response_def)


















section \<open>An error status of the track search\<close>

lemma expired_draw:
  "draw_tarot_cards expired_net 2 [] =
     (Inr (JArr [card_of ''The Fool'' ''ar00'', card_of ''Death'' ''ar13'']),
      [get_request (tarot_api_url @ ''/cards/random'') [] [(''n'', JInt 2)]])"
  by (simp add: draw_tarot_cards_def send_def expired_net_def get_request_def raise_for_status_def
      resp_json_def and_then_def)

lemma expired_reading:
  "get_tarot_reading expired_net full_cfg [''The Fool'', ''Death''] ''Career'' [r1] =
     (Inr (JStr ''Try some jazz.''),
      [r1, reading_request full_cfg (build_prompt [''The Fool'', ''Death''] ''Career'')])"
  by (simp add: get_tarot_reading_def reading_request_def send_def expired_net_def post_request_def groq_api_url_def
      tarot_api_url_def raise_for_status_chat message_content_chat and_then_def)

lemma strip_jazz: \<open>strip ''["jazz"]'' = ''["jazz"]''\<close>
  by (simp add: strip_def lstrip_def rstrip_def py_whitespace_def)

lemma loads_jazz: \<open>json_loads ''["jazz"]'' = Some (JArr [JStr ''jazz''])\<close>
  by (simp add: json_loads_def is_json_ws_def)

lemma expired_extract:
  "extract_genres expired_net full_cfg ''Try some jazz.'' [r1, r2] =
     (Inr (JArr [JStr ''jazz'']), [r1, r2, extract_request full_cfg ''Try some jazz.''])"
  by (simp add: extract_genres_def send_def expired_net_def extract_request_def post_request_def
      groq_api_url_def tarot_api_url_def raise_for_status_chat message_content_chat and_then_def
      strip_jazz loads_jazz py_json_loads_def)

lemma expired_token:
  "get_spotify_token expired_net full_cfg log = (Inr (JStr ''tok123''), log @ [token_request full_cfg])"
  by (simp add: get_spotify_token_def token_request_def send_def expired_net_def post_request_def
      groq_api_url_def tarot_api_url_def raise_for_status_def resp_json_def and_then_def)

lemma expired_query:
  "expired_net l (genre_query hs limit g) = Inr unauthorized"
  "expired_net l (text_query hs limit g) = Inr unauthorized"
  by (simp_all add: expired_net_def genre_query_def text_query_def get_request_def search_url_def
      groq_api_url_def tarot_api_url_def)

lemma tracks_items_unauthorized: "tracks_items unauthorized = Inr (JArr [])"
  by (simp add: tracks_items_def unauthorized_def resp_json_def and_then_def)

lemma expired_search:
  "search_tracks expired_net [''jazz''] token limit log =
     (Inr [], log @ [genre_query (auth_header token) limit ''jazz'',
                     text_query (auth_header token) limit ''jazz''])"
  by (simp add: search_tracks_def fetch_tracks_def send_def expired_query tracks_items_unauthorized)

lemma expired_cards:
  "show_cards 2 0 [card_of ''The Fool'' ''ar00'', card_of ''Death'' ''ar13''] =
    ([InColumn 0 (StImage [Lit tarot_image_base, Lit ''/'', Val (JStr ''ar00''), Lit ''.jpg''] (JStr ''The Fool'')),
      InColumn 0 (StMarkdown [Lit ''**Upright:** '', Val (JStr ''Beginnings'')]),
      InColumn 0 (StMarkdown [Lit ''**Reversed:** '', Val (JStr ''Endings'')]),
      InColumn 1 (StImage [Lit tarot_image_base, Lit ''/'', Val (JStr ''ar13''), Lit ''.jpg''] (JStr ''Death'')),
      InColumn 1 (StMarkdown [Lit ''**Upright:** '', Val (JStr ''Beginnings'')]),
      InColumn 1 (StMarkdown [Lit ''**Reversed:** '', Val (JStr ''Endings'')])], None)"
  by (simp add: card_of_def)

lemma expired_spotify:
  "spotify_stage full_cfg expired_net [''jazz''] page log =
     \<lparr>shown = page @ [StWarning [Lit ''No tracks found on Spotify for the recommended genres.'']],
      sent = log @ [token_request full_cfg,
                    genre_query (auth_header (JStr ''tok123'')) default_limit ''jazz'',
                    text_query (auth_header (JStr ''tok123'')) default_limit ''jazz''],
      ending = Completed\<rparr>"
  by (simp add: spotify_stage_def expired_token expired_search)

lemma expired_genres:
  "genres_stage full_cfg expired_net (JStr ''Try some jazz.'') page [r1, r2] =
     \<lparr>shown = page @
        [StSubheader [Lit ([CHR 0xF0, CHR 0x9F, CHR 0x8E, CHR 0xB5] @ '' Recommended Genres'')],
         StWrite [Lit ''jazz''],
         StWarning [Lit ''No tracks found on Spotify for the recommended genres.'']],
      sent = [r1, r2, extract_request full_cfg ''Try some jazz.'', token_request full_cfg,
              genre_query (auth_header (JStr ''tok123'')) default_limit ''jazz'',
              text_query (auth_header (JStr ''tok123'')) default_limit ''jazz''],
      ending = Completed\<rparr>"
  by (simp add: genres_stage_def expired_extract and_then_def expired_spotify)

lemma expired_reading_stage:
  "reading_stage full_cfg expired_net ''Career'' [JStr ''The Fool'', JStr ''Death''] page [r1] =
     \<lparr>shown = page @
        [StSubheader [Lit ([CHR 0xF0, CHR 0x9F, CHR 0x93, CHR 0x96] @ '' Your Reading'')],
         StMarkdown [Val (JStr ''Try some jazz.'')],
         StSubheader [Lit ([CHR 0xF0, CHR 0x9F, CHR 0x8E, CHR 0xB5] @ '' Recommended Genres'')],
         StWrite [Lit ''jazz''],
         StWarning [Lit ''No tracks found on Spotify for the recommended genres.'']],
      sent = [r1,
              reading_request full_cfg (build_prompt [''The Fool'', ''Death''] ''Career''),
              extract_request full_cfg ''Try some jazz.'', token_request full_cfg,
              genre_query (auth_header (JStr ''tok123'')) default_limit ''jazz'',
              text_query (auth_header (JStr ''tok123'')) default_limit ''jazz''],
      ending = Completed\<rparr>"
  by (simp add: reading_stage_def expired_reading expired_genres)

lemma expired_names:
  "card_names_of [card_of ''The Fool'' ''ar00'', card_of ''Death'' ''ar13''] =
      Inr [JStr ''The Fool'', JStr ''Death'']"
  by (simp add: card_of_def and_then_def)

lemma expired_run:
  "run full_cfg expired_net 2 ''Career'' =
     \<lparr>shown =
        [StSubheader [Lit ''Your Cards''],
         InColumn 0 (StImage [Lit tarot_image_base, Lit ''/'', Val (JStr ''ar00''), Lit ''.jpg''] (JStr ''The Fool'')),
         InColumn 0 (StMarkdown [Lit ''**Upright:** '', Val (JStr ''Beginnings'')]),
         InColumn 0 (StMarkdown [Lit ''**Reversed:** '', Val (JStr ''Endings'')]),
         InColumn 1 (StImage [Lit tarot_image_base, Lit ''/'', Val (JStr ''ar13''), Lit ''.jpg''] (JStr ''Death'')),
         InColumn 1 (StMarkdown [Lit ''**Upright:** '', Val (JStr ''Beginnings'')]),
         InColumn 1 (StMarkdown [Lit ''**Reversed:** '', Val (JStr ''Endings'')]),
         StSubheader [Lit ([CHR 0xF0, CHR 0x9F, CHR 0x93, CHR 0x96] @ '' Your Reading'')],
         StMarkdown [Val (JStr ''Try some jazz.'')],
         StSubheader [Lit ([CHR 0xF0, CHR 0x9F, CHR 0x8E, CHR 0xB5] @ '' Recommended Genres'')],
         StWrite [Lit ''jazz''],
         StWarning [Lit ''No tracks found on Spotify for the recommended genres.'']],
      sent =
        [get_request (tarot_api_url @ ''/cards/random'') [] [(''n'', JInt 2)],
         reading_request full_cfg (build_prompt [''The Fool'', ''Death''] ''Career''),
         extract_request full_cfg ''Try some jazz.'',
         token_request full_cfg,
         genre_query (auth_header (JStr ''tok123'')) default_limit ''jazz'',
         text_query (auth_header (JStr ''tok123'')) default_limit ''jazz''],
      ending = Completed\<rparr>"
proof -
  have m: "missing_vars full_cfg = []"
    by (simp add: missing_vars_def unset_def full_cfg_def)
  have c: "cards_stage full_cfg expired_net 2 ''Career''
      (JArr [card_of ''The Fool'' ''ar00'', card_of ''Death'' ''ar13'']) [r1] =
      reading_stage full_cfg expired_net ''Career'' [JStr ''The Fool'', JStr ''Death'']
        (StSubheader [Lit ''Your Cards''] #
           fst (show_cards 2 0 [card_of ''The Fool'' ''ar00'', card_of ''Death'' ''ar13''])) [r1]" for r1
    by (simp add: cards_stage_def expired_names expired_cards
        del: card_names_of.simps show_cards.simps)
  show ?thesis
    by (simp add: run_def m expired_draw c expired_cards expired_reading_stage
        del: show_cards.simps)
qed

text \<open>
  Claim C1, on the code. \<open>search_tracks\<close> never looks at the status of a search
  response, where \<open>draw_tarot_cards\<close>, \<open>get_tarot_reading\<close>, \<open>extract_genres\<close> and
  \<open>get_spotify_token\<close> all call \<^verbatim>\<open>raise_for_status\<close>. When the search endpoint answers
  both queries of a genre with status 401 and an error body, \<^verbatim>\<open>raise_for_status\<close> would
  raise on either answer, yet \<open>search_tracks\<close> returns the empty list; the run shows
  no error, ends with the warning that no tracks were found, and completes.
\<close>

theorem search_error_status_not_surfaced:
  "expired_net (take 4 (sent (run full_cfg expired_net 2 ''Career'')))
     (genre_query (auth_header (JStr ''tok123'')) default_limit ''jazz'') = Inr unauthorized \<and>
   raise_for_status unauthorized = Inl (HTTPError 401) \<and>
   search_tracks expired_net [''jazz''] (JStr ''tok123'') default_limit [] =
     (Inr [], [genre_query (auth_header (JStr ''tok123'')) default_limit ''jazz'',
               text_query (auth_header (JStr ''tok123'')) default_limit ''jazz'']) \<and>
   drop 4 (sent (run full_cfg expired_net 2 ''Career'')) =
     [genre_query (auth_header (JStr ''tok123'')) default_limit ''jazz'',
      text_query (auth_header (JStr ''tok123'')) default_limit ''jazz''] \<and>
   filter is_st_error (shown (run full_cfg expired_net 2 ''Career'')) = [] \<and>
   last (shown (run full_cfg expired_net 2 ''Career'')) =
     StWarning [Lit ''No tracks found on Spotify for the recommended genres.''] \<and>
   ending (run full_cfg expired_net 2 ''Career'') = Completed"
  by (simp add: expired_run expired_query expired_search raise_for_status_def unauthorized_def)

end
